theory Spec2Isabelle
  imports Main "HOL-Library.Multiset" "HOL-Library.Sublist"
begin

section \<open>The Pixeltable multimodal demo: upload handlers and the answering pipeline\<close>

text \<open>
  The program is \<^verbatim>\<open>src/main.py\<close>: four HTTP handlers over a table store
  (\<^verbatim>\<open>pixeltable\<close>), a generative model (\<^verbatim>\<open>gemini.generate_content\<close>) and a
  template engine (\<^verbatim>\<open>jinja2\<close>). The handlers, \<^verbatim>\<open>init_pixeltable\<close> and
  \<^verbatim>\<open>get_tables\<close> are translated statement by statement. What the program only calls is not
  in the source and is a field of an environment record: whether a call that creates a table,
  a view, an index or a computed column raises, the document splitter, the check of an image,
  the similarity score of the embedding index, the ordering of a query, the generative model
  with the attempts the store makes at it, and the template engine. The store's
  \<^verbatim>\<open>insert\<close>, \<^verbatim>\<open>limit\<close> and \<^verbatim>\<open>tail\<close> are written out as the library documents them:
  an insert appends one row and evaluates the computed columns the table has for that row,
  and with the default \<^verbatim>\<open>on_error='abort'\<close> it raises and inserts nothing when an
  evaluation fails. A table keeps what a call did before a later call raised: a table
  created at line 57 stays, without its computed column, when lines 61 to 66 raise.
  Exceptions are values: a handler returns \<open>Inl e\<close> where the Python raises \<open>e\<close> to its
  caller.
\<close>

subsection \<open>Data\<close>

datatype error =
    OSError string
  | KeyError string
  | AttributeError string
  | PxtError string

text \<open>Python's \<^verbatim>\<open>str(e)\<close>; a \<^verbatim>\<open>KeyError\<close> prints the \<^verbatim>\<open>repr\<close> of its key.\<close>

fun str_of_error :: "error \<Rightarrow> string" where
  "str_of_error (OSError m) = m"
| "str_of_error (KeyError k) = [CHR 0x27] @ k @ [CHR 0x27]"
| "str_of_error (AttributeError m) = m"
| "str_of_error (PxtError m) = m"

text \<open>The \<^verbatim>\<open>contents\<close> argument of \<^verbatim>\<open>gemini.generate_content\<close>: an image or a string.\<close>

datatype contents = ImageContent string | TextContent string

text \<open>
  One attempt at \<^verbatim>\<open>gemini.generate_content(contents=..., model=...)\<close> as it left the
  process, with what came back (\<open>Inl\<close> a failure such as a timeout). The program passes
  these two arguments and no other.
\<close>

record model_call =
  call_contents :: contents
  call_model :: string
  call_result :: "string + string"

text \<open>An object returned by \<^verbatim>\<open>pxt.get_table\<close>, \<^verbatim>\<open>pxt.create_table\<close> or \<^verbatim>\<open>pxt.create_view\<close>.\<close>

datatype handle = TableHandle string

text \<open>
  The calls of the library that create the schema, by the line of the source: each of them
  may raise.
\<close>

datatype pxt_op =
    PxtInit
  | CreateDocs
  | CreateChunksView
  | AddEmbeddingIndex
  | CreateImages
  | AddVisionColumn
  | CreateQaLog
  | AddAnswerColumn

text \<open>
  A row of \<^verbatim>\<open>images\<close>: the path that was inserted and the computed column
  \<^verbatim>\<open>vision_description\<close>, \<open>None\<close> in a row inserted while the table had no such column.
\<close>

record image_row =
  input_image :: string
  vision_description :: "string option"

text \<open>A row of \<^verbatim>\<open>qa_log\<close>; \<^verbatim>\<open>answer\<close> is its computed column.\<close>

record qa_row =
  qa_question :: string
  qa_context :: string
  qa_answer :: "string option"

text \<open>FastAPI's \<^verbatim>\<open>UploadFile\<close>: the name the client gave and the uploaded bytes.\<close>

record upload_file =
  filename :: string
  file_data :: string

text \<open>
  The state the handlers work on: the files under \<^verbatim>\<open>/tmp\<close>; the store's catalog, where a
  table that was never created is \<open>None\<close> and three flags say whether the view has its
  embedding index and the two tables their computed column; the module's global
  \<^verbatim>\<open>TABLES\<close>; and two histories that the program does not keep but the properties count:
  how often \<^verbatim>\<open>init_pixeltable\<close> was entered in this process, and every attempt at the
  generative model.
\<close>

record state =
  files :: "string \<rightharpoonup> string"
  docs_tbl :: "string list option"
  doc_chunks :: "string list option"
  embedding_index :: bool
  images_tbl :: "image_row list option"
  vision_column :: bool
  qa_log :: "qa_row list option"
  answer_column :: bool
  TABLES :: "string \<rightharpoonup> handle"
  init_calls :: nat
  model_calls :: "model_call list"

text \<open>
  What the program calls and does not define. \<open>pxt_raises op\<close> is the message with which the
  call \<open>op\<close> raises, if it does. \<open>valid_image\<close> is the store's check of the bytes it is
  given as an image. \<open>order_by_desc key rows\<close> is \<^verbatim>\<open>order_by(key, asc=False)\<close> on the rows
  of a table; \<open>similarity q t\<close> is the score of the chunk text \<open>t\<close> for the question \<open>q\<close>
  under the embedding index (any linear order of scores). \<open>generate_content c m\<close> is what
  the store's last attempt at the model returned, and \<open>retried c m\<close> the failures of the
  attempts it made before that one: how often it tries again is the store's policy.
  \<open>render_template\<close> is \<^verbatim>\<open>Template(...).render(...)\<close>, a value \<open>None\<close> being Python's.
\<close>

record 's env =
  pxt_raises :: "pxt_op \<Rightarrow> string option"
  can_open :: "string \<Rightarrow> bool"
  document_splitter :: "string \<Rightarrow> string + string list"
  valid_image :: "string \<Rightarrow> bool"
  similarity :: "string \<Rightarrow> string \<Rightarrow> 's"
  order_by_desc :: "(string \<Rightarrow> 's) \<Rightarrow> string list \<Rightarrow> string list"
  retried :: "contents \<Rightarrow> string \<Rightarrow> string list"
  generate_content :: "contents \<Rightarrow> string \<Rightarrow> string + string"
  render_template :: "string \<Rightarrow> (string \<times> string option) list \<Rightarrow> string"

text \<open>
  The contract of \<^verbatim>\<open>order_by(key, asc=False)\<close>: the same rows, arranged by non-increasing
  key. It says nothing about the order of rows with equal keys.
\<close>

definition order_by_contract :: "('s::linorder) env \<Rightarrow> bool" where
  "order_by_contract env \<longleftrightarrow>
     (\<forall>key rows. mset (order_by_desc env key rows) = mset rows \<and>
        sorted_wrt (\<lambda>a b. key b \<le> key a) (order_by_desc env key rows))"

subsection \<open>The store's operations\<close>

definition the_rows :: "'a list option \<Rightarrow> 'a list" where
  "the_rows t = (case t of None \<Rightarrow> [] | Some rs \<Rightarrow> rs)"

text \<open>\<^verbatim>\<open>.limit(n)\<close> and \<^verbatim>\<open>.tail(n)\<close>: the first and the last \<open>n\<close> rows.\<close>

definition limit :: "nat \<Rightarrow> 'a list \<Rightarrow> 'a list" where
  "limit n rs = take n rs"

definition tail :: "nat \<Rightarrow> 'a list \<Rightarrow> 'a list" where
  "tail n rs = drop (length rs - n) rs"

text \<open>
  The attempts the store makes at the model when it evaluates a computed column: those that
  failed and were tried again, then the last.
\<close>

definition attempts :: "'s env \<Rightarrow> contents \<Rightarrow> string \<Rightarrow> model_call list" where
  "attempts env c m =
     map (\<lambda>f. \<lparr>call_contents = c, call_model = m, call_result = Inl f\<rparr>) (retried env c m) @
     [\<lparr>call_contents = c, call_model = m, call_result = generate_content env c m\<rparr>]"

text \<open>The store evaluating such a column: the outcome is that of the last attempt.\<close>

definition evaluate_column ::
  "'s env \<Rightarrow> contents \<Rightarrow> string \<Rightarrow> state \<Rightarrow> (string + string) \<times> state" where
  "evaluate_column env c m st =
     (generate_content env c m, st\<lparr>model_calls := model_calls st @ attempts env c m\<rparr>)"

text \<open>The sentence chunks of the document stored at a path.\<close>

definition chunks_of :: "'s env \<Rightarrow> state \<Rightarrow> string \<Rightarrow> string list" where
  "chunks_of env st p =
     (case files st p of
        None \<Rightarrow> []
      | Some d \<Rightarrow> (case document_splitter env d of Inl _ \<Rightarrow> [] | Inr cs \<Rightarrow> cs))"

text \<open>
  \<^verbatim>\<open>tables['docs'].insert([{'doc': path}])\<close>: the store reads the document, and the view
  \<^verbatim>\<open>doc_chunks\<close>, where it exists, receives its chunks after those already there.
\<close>

definition docs_insert :: "'s env \<Rightarrow> string \<Rightarrow> state \<Rightarrow> error + state" where
  "docs_insert env p st =
     (case docs_tbl st of
        None \<Rightarrow> Inl (PxtError ''docs'')
      | Some ds \<Rightarrow>
          (case files st p of
             None \<Rightarrow> Inl (PxtError p)
           | Some d \<Rightarrow>
               (case document_splitter env d of
                  Inl m \<Rightarrow> Inl (PxtError m)
                | Inr cs \<Rightarrow>
                    Inr (st\<lparr>docs_tbl := Some (ds @ [p]),
                            doc_chunks := map_option (\<lambda>rs. rs @ cs) (doc_chunks st)\<rparr>))))"

text \<open>
  \<^verbatim>\<open>images.insert([{'input_image': path}])\<close>: the store reads the image and refuses bytes
  that are not an image. Where the table has the computed column of lines 61 to 66, the store
  evaluates it for the new row; where it has not, the row is stored without a description
  and the model is not called.
\<close>

definition images_insert :: "'s env \<Rightarrow> string \<Rightarrow> state \<Rightarrow> (error + unit) \<times> state" where
  "images_insert env p st =
     (case images_tbl st of
        None \<Rightarrow> (Inl (PxtError ''images''), st)
      | Some rs \<Rightarrow>
          (case files st p of
             None \<Rightarrow> (Inl (PxtError p), st)
           | Some d \<Rightarrow>
               if \<not> valid_image env d then (Inl (PxtError p), st)
               else if vision_column st then
                 (case evaluate_column env (ImageContent d) ''gemini-2.0-flash'' st of
                    (Inl m, st1) \<Rightarrow> (Inl (PxtError m), st1)
                  | (Inr v, st1) \<Rightarrow>
                      (Inr (), st1\<lparr>images_tbl := Some (rs @
                         [\<lparr>input_image = p, vision_description = Some v\<rparr>])\<rparr>))
               else
                 (Inr (), st\<lparr>images_tbl := Some (rs @
                    [\<lparr>input_image = p, vision_description = None\<rparr>])\<rparr>)))"

text \<open>The expression of the computed column \<^verbatim>\<open>answer\<close> (line 243).\<close>

definition qa_contents :: "string \<Rightarrow> string \<Rightarrow> string" where
  "qa_contents q c = ''Question: '' @ q @ ''\<newline>Context: '' @ c"

text \<open>
  \<^verbatim>\<open>qa_table.insert([{'question': question, 'context': context_text}])\<close>, with the computed
  column of lines 241 to 246 where the table has it.
\<close>

definition qa_insert :: "'s env \<Rightarrow> string \<Rightarrow> string \<Rightarrow> state \<Rightarrow> (error + unit) \<times> state" where
  "qa_insert env q c st =
     (case qa_log st of
        None \<Rightarrow> (Inl (PxtError ''qa_log''), st)
      | Some rs \<Rightarrow>
          if answer_column st then
            (case evaluate_column env (TextContent (qa_contents q c)) ''gemini-2.0-flash'' st of
               (Inl m, st1) \<Rightarrow> (Inl (PxtError m), st1)
             | (Inr a, st1) \<Rightarrow>
                 (Inr (), st1\<lparr>qa_log := Some (rs @
                    [\<lparr>qa_question = q, qa_context = c, qa_answer = Some a\<rparr>])\<rparr>))
          else
            (Inr (), st\<lparr>qa_log := Some (rs @
               [\<lparr>qa_question = q, qa_context = c, qa_answer = None\<rparr>])\<rparr>))"

subsection \<open>Strings\<close>

text \<open>\<^verbatim>\<open>sep.join(xs)\<close>.\<close>

fun join :: "string \<Rightarrow> string list \<Rightarrow> string" where
  "join sep [] = []"
| "join sep [x] = x"
| "join sep (x # y # ys) = x @ sep @ join sep (y # ys)"

text \<open>\<^verbatim>\<open>s.replace(old, new)\<close>: every occurrence, left to right, without overlap.\<close>

function replace_str :: "string \<Rightarrow> string \<Rightarrow> string \<Rightarrow> string" where
  "replace_str s old new =
     (if old = [] then new @ concat (map (\<lambda>c. c # new) s)
      else if s = [] then []
      else if prefix old s then new @ replace_str (drop (length old) s) old new
      else hd s # replace_str (tl s) old new)"
  by pat_completeness auto
termination
  by (relation "measure (\<lambda>(s, old, new). length s)") auto

declare replace_str.simps [simp del]

subsection \<open>The template\<close>

text \<open>
  The literal of lines 82 to 184, line by line: the text after the opening quotes up to the
  first newline (empty), then every line of the page. In the literal each of them is
  followed by a newline.
\<close>

definition HTML_LINES :: "string list" where
  \<open>HTML_LINES = [
    '''',
    ''<!DOCTYPE html>'',
    ''<html lang="en">'',
    ''<head>'',
    ''    <meta charset="UTF-8">'',
    ''    <meta name="viewport" content="width=device-width, initial-scale=1.0">'',
    ''    <title>Pixeltable + Gemini 2.0 Flash</title>'',
    ''    <script src="https://cdn.tailwindcss.com"></script>'',
    ''    <style>'',
    ''        body { background-color: #f3f4f6; }'',
    ''        .gradient-text {'',
    ''            background: linear-gradient(90deg, #667eea 0%, #764ba2 100%);'',
    ''            -webkit-background-clip: text;'',
    ''            -webkit-text-fill-color: transparent;'',
    ''        }'',
    ''        .btn-primary {'',
    ''            background: linear-gradient(90deg, #667eea 0%, #764ba2 100%);'',
    ''            color: white;'',
    ''        }'',
    ''    </style>'',
    ''</head>'',
    ''<body class="p-8">'',
    ''    <div class="max-w-4xl mx-auto bg-white rounded-xl shadow-lg p-8">'',
    ''        <h1 class="text-4xl font-bold mb-2 gradient-text">Pixeltable Multimodal</h1>'',
    ''        <p class="text-gray-500 mb-8">Powered by Gemini 2.0 Flash</p>'',
    '''',
    ''        <!-- Tabs -->'',
    ''        <div class="mb-6 border-b">'',
    ''            <nav class="-mb-px flex space-x-8">'',
    ''                <button onclick="switchTab('docs')" class="tab-btn border-b-2 border-indigo-500 py-4 px-1 text-sm font-medium text-indigo-600" id="tab-docs">Document RAG</button>'',
    ''                <button onclick="switchTab('images')" class="tab-btn border-b-2 border-transparent py-4 px-1 text-sm font-medium text-gray-500 hover:text-gray-700" id="tab-images">Image Analysis</button>'',
    ''            </nav>'',
    ''        </div>'',
    '''',
    ''        <!-- Document Section -->'',
    ''        <div id="content-docs" class="tab-content">'',
    ''            <div class="grid grid-cols-1 gap-6">'',
    ''                <div class="bg-gray-50 p-6 rounded-lg">'',
    ''                    <h3 class="font-bold mb-4">1. Upload Document</h3>'',
    ''                    <form action="/upload_doc" method="post" enctype="multipart/form-data" class="flex gap-4">'',
    ''                        <input type="file" name="file" accept=".pdf,.txt" class="block w-full text-sm text-gray-500 file:mr-4 file:py-2 file:px-4 file:rounded-full file:border-0 file:text-sm file:font-semibold file:bg-violet-50 file:text-violet-700 hover:file:bg-violet-100"/>'',
    ''                        <button type="submit" class="btn-primary px-4 py-2 rounded">Upload</button>'',
    ''                    </form>'',
    ''                </div>'',
    '''',
    ''                <div class="bg-gray-50 p-6 rounded-lg">'',
    ''                    <h3 class="font-bold mb-4">2. Ask Question (Gemini 2.0)</h3>'',
    ''                    <form action="/ask" method="post" class="flex gap-4">'',
    ''                        <input type="text" name="question" placeholder="Ask about your documents..." class="flex-1 p-2 border rounded"/>'',
    ''                        <button type="submit" class="btn-primary px-4 py-2 rounded">Ask</button>'',
    ''                    </form>'',
    ''                    {% if answer %}'',
    ''                    <div class="mt-4 p-4 bg-white border-l-4 border-indigo-500 shadow-sm">'',
    ''                        <p class="font-semibold text-gray-700">Answer:</p>'',
    ''                        <p class="mt-1">{{ answer }}</p>'',
    ''                    </div>'',
    ''                    {% endif %}'',
    ''                </div>'',
    ''            </div>'',
    ''        </div>'',
    '''',
    ''        <!-- Image Section -->'',
    ''        <div id="content-images" class="tab-content hidden">'',
    ''            <div class="bg-gray-50 p-6 rounded-lg">'',
    ''                <h3 class="font-bold mb-4">Upload Image for Analysis</h3>'',
    ''                <form action="/upload_image" method="post" enctype="multipart/form-data" class="flex gap-4 items-center">'',
    ''                    <input type="file" name="file" accept="image/*" class="block w-full text-sm text-gray-500 file:mr-4 file:py-2 file:px-4 file:rounded-full file:border-0 file:text-sm file:font-semibold file:bg-violet-50 file:text-violet-700 hover:file:bg-violet-100"/>'',
    ''                    <button type="submit" class="btn-primary px-4 py-2 rounded">Analyze</button>'',
    ''                </form>'',
    ''            </div>'',
    '''',
    ''            {% if image_desc %}'',
    ''            <div class="mt-6 p-6 bg-white rounded-lg shadow border border-gray-100">'',
    ''                <h3 class="font-bold text-lg mb-2 text-indigo-600">Gemini Vision Analysis:</h3>'',
    ''                <p class="text-gray-800 leading-relaxed">{{ image_desc }}</p>'',
    ''            </div>'',
    ''            {% endif %}'',
    ''        </div>'',
    ''    </div>'',
    '''',
    ''    <script>'',
    ''        function switchTab(tab) {'',
    ''            document.querySelectorAll('.tab-content').forEach(el => el.classList.add('hidden'));'',
    ''            document.getElementById('content-' + tab).classList.remove('hidden');'',
    ''            '',
    ''            document.querySelectorAll('.tab-btn').forEach(el => {'',
    ''                el.classList.remove('border-indigo-500', 'text-indigo-600');'',
    ''                el.classList.add('border-transparent', 'text-gray-500');'',
    ''            });'',
    ''            document.getElementById('tab-' + tab).classList.add('border-indigo-500', 'text-indigo-600');'',
    ''            document.getElementById('tab-' + tab).classList.remove('border-transparent', 'text-gray-500');'',
    ''            '',
    ''            // Persist tab selection (simple local storage or just keep view)'',
    ''            localStorage.setItem('activeTab', tab);'',
    ''        }'',
    ''        '',
    ''        // Restore tab if reloaded'',
    ''        const active = localStorage.getItem('activeTab');'',
    ''        if(active) switchTab(active);'',
    ''    </script>'',
    ''</body>'',
    ''</html>''
  ]\<close>

definition HTML_TEMPLATE :: string where
  "HTML_TEMPLATE = concat (map (\<lambda>l. l @ ''\<newline>'') HTML_LINES)"

subsection \<open>Initialisation\<close>

text \<open>Lines 33 to 36.\<close>

definition ensure_docs :: "'s env \<Rightarrow> state \<Rightarrow> (error + handle) \<times> state" where
  "ensure_docs env st =
     (case docs_tbl st of
        Some _ \<Rightarrow> (Inr (TableHandle ''docs''), st)
      | None \<Rightarrow>
          (case pxt_raises env CreateDocs of
             Some m \<Rightarrow> (Inl (PxtError m), st)
           | None \<Rightarrow> (Inr (TableHandle ''docs''), st\<lparr>docs_tbl := Some []\<rparr>)))"

text \<open>
  Lines 38 to 51: a view that is created is filled from the documents already in
  \<^verbatim>\<open>docs\<close>, and has no embedding index until line 51 has returned.
\<close>

definition ensure_chunks :: "'s env \<Rightarrow> state \<Rightarrow> (error + handle) \<times> state" where
  "ensure_chunks env st =
     (case doc_chunks st of
        Some _ \<Rightarrow> (Inr (TableHandle ''doc_chunks''), st)
      | None \<Rightarrow>
          (case pxt_raises env CreateChunksView of
             Some m \<Rightarrow> (Inl (PxtError m), st)
           | None \<Rightarrow>
               (let st1 = st\<lparr>doc_chunks :=
                            Some (concat (map (chunks_of env st) (the_rows (docs_tbl st)))),
                          embedding_index := False\<rparr>
                in case pxt_raises env AddEmbeddingIndex of
                     Some m \<Rightarrow> (Inl (PxtError m), st1)
                   | None \<Rightarrow>
                       (Inr (TableHandle ''doc_chunks''), st1\<lparr>embedding_index := True\<rparr>))))"

text \<open>
  Lines 54 to 66: the table is created at line 57, the computed column is added to it at
  lines 61 to 66, and nothing undoes the first when the second raises.
\<close>

definition ensure_images :: "'s env \<Rightarrow> state \<Rightarrow> (error + handle) \<times> state" where
  "ensure_images env st =
     (case images_tbl st of
        Some _ \<Rightarrow> (Inr (TableHandle ''images''), st)
      | None \<Rightarrow>
          (case pxt_raises env CreateImages of
             Some m \<Rightarrow> (Inl (PxtError m), st)
           | None \<Rightarrow>
               (let st1 = st\<lparr>images_tbl := Some [], vision_column := False\<rparr>
                in case pxt_raises env AddVisionColumn of
                     Some m \<Rightarrow> (Inl (PxtError m), st1)
                   | None \<Rightarrow> (Inr (TableHandle ''images''), st1\<lparr>vision_column := True\<rparr>))))"

definition init_pixeltable ::
  "'s env \<Rightarrow> state \<Rightarrow> (error + handle \<times> handle \<times> handle) \<times> state" where
  "init_pixeltable env st =
     (let st0 = st\<lparr>init_calls := Suc (init_calls st)\<rparr>
      in case pxt_raises env PxtInit of
           Some m \<Rightarrow> (Inl (PxtError m), st0)
         | None \<Rightarrow>
             (case ensure_docs env st0 of
                (Inl e, st1) \<Rightarrow> (Inl e, st1)
              | (Inr docs, st1) \<Rightarrow>
                  (case ensure_chunks env st1 of
                     (Inl e, st2) \<Rightarrow> (Inl e, st2)
                   | (Inr chunks, st2) \<Rightarrow>
                       (case ensure_images env st2 of
                          (Inl e, st3) \<Rightarrow> (Inl e, st3)
                        | (Inr images, st3) \<Rightarrow> (Inr (docs, chunks, images), st3)))))"

text \<open>Lines 73 to 79: \<^verbatim>\<open>TABLES\<close> is written after \<^verbatim>\<open>init_pixeltable\<close> has returned.\<close>

definition get_tables :: "'s env \<Rightarrow> state \<Rightarrow> (error + (string \<rightharpoonup> handle)) \<times> state" where
  "get_tables env st =
     (if TABLES st = Map.empty then
        (case init_pixeltable env st of
           (Inl e, st1) \<Rightarrow> (Inl e, st1)
         | (Inr (d, c, i), st1) \<Rightarrow>
             (let st2 = st1\<lparr>TABLES := (TABLES st1)(''docs'' \<mapsto> d)\<rparr>;
                  st3 = st2\<lparr>TABLES := (TABLES st2)(''chunks'' \<mapsto> c)\<rparr>;
                  st4 = st3\<lparr>TABLES := (TABLES st3)(''images'' \<mapsto> i)\<rparr>
              in (Inr (TABLES st4), st4)))
      else (Inr (TABLES st), st))"

subsection \<open>Endpoints\<close>

definition root :: "state \<Rightarrow> (error + string) \<times> state" where
  "root st = (Inr HTML_TEMPLATE, st)"

text \<open>\<^verbatim>\<open>s.split('/')\<close>.\<close>

fun split_slash :: "string \<Rightarrow> string list" where
  "split_slash [] = [] # []"
| "split_slash (c # cs) =
     (if c = CHR ''/'' then [] # split_slash cs
      else (case split_slash cs of [] \<Rightarrow> [c] # [] | w # ws \<Rightarrow> (c # w) # ws))"

text \<open>
  \<^verbatim>\<open>Path(f"/tmp/{file.filename}")\<close> as the string it is opened and inserted by: the root,
  then the components between slashes, joined by one slash, without the empty components and
  those that are a single dot.
\<close>

definition temp_path :: "upload_file \<Rightarrow> string" where
  "temp_path file =
     ''/'' @ join ''/'' (filter (\<lambda>c. c \<noteq> [] \<and> c \<noteq> ''.'')
                          (split_slash (''/tmp/'' @ filename file)))"

text \<open>\<^verbatim>\<open>with open(temp_path, "wb") as buffer: shutil.copyfileobj(file.file, buffer)\<close>.\<close>

definition write_temp :: "'s env \<Rightarrow> string \<Rightarrow> string \<Rightarrow> state \<Rightarrow> error + state" where
  "write_temp env p d st =
     (if can_open env p then Inr (st\<lparr>files := (files st)(p \<mapsto> d)\<rparr>) else Inl (OSError p))"

definition upload_doc :: "'s env \<Rightarrow> upload_file \<Rightarrow> state \<Rightarrow> (error + string) \<times> state" where
  "upload_doc env file st =
     (case get_tables env st of
        (Inl e, st1) \<Rightarrow> (Inl e, st1)
      | (Inr tables, st1) \<Rightarrow>
          (let p = temp_path file
           in case write_temp env p (file_data file) st1 of
                Inl e \<Rightarrow> (Inl e, st1)
              | Inr st2 \<Rightarrow>
                  (let (msg, st3) =
                         (case (case tables ''docs'' of
                                  None \<Rightarrow> Inl (KeyError ''docs'')
                                | Some h \<Rightarrow> docs_insert env p st2) of
                            Inr st' \<Rightarrow> (''Processed '' @ filename file, st')
                          | Inl e \<Rightarrow> (''Error: '' @ str_of_error e, st2))
                   in (Inr (replace_str HTML_TEMPLATE ''Pixeltable Multimodal''
                              (''Status: '' @ msg)),
                       st3))))"

text \<open>Lines 216 and 217 on the rows of the view: the rows the query returns, as their \<^verbatim>\<open>text\<close>.\<close>

definition context_rows :: "'s env \<Rightarrow> string list \<Rightarrow> string \<Rightarrow> string list" where
  "context_rows env chunks question =
     limit 3 (order_by_desc env (similarity env question) chunks)"

text \<open>
  Lines 216 and 217 on the store: \<^verbatim>\<open>chunks.text.similarity\<close> needs the embedding index
  of the view.
\<close>

definition query_context_rows :: "'s env \<Rightarrow> state \<Rightarrow> string \<Rightarrow> error + string list" where
  "query_context_rows env st question =
     (case doc_chunks st of
        None \<Rightarrow> Inl (PxtError ''doc_chunks'')
      | Some chunks \<Rightarrow>
          if embedding_index st then Inr (context_rows env chunks question)
          else Inl (PxtError ''similarity''))"

text \<open>Line 218.\<close>

definition context_text :: "string list \<Rightarrow> string" where
  "context_text rows = join ''\<newline>'' rows"

text \<open>Lines 224 to 230: the local \<^verbatim>\<open>prompt\<close>.\<close>

definition prompt :: "string \<Rightarrow> string \<Rightarrow> string" where
  "prompt ctx question =
     ''\<newline>    Context: '' @ ctx @ ''\<newline>    \<newline>    Question: '' @ question @
     ''\<newline>    \<newline>    Answer concisely based on the context.\<newline>    ''"

text \<open>
  Lines 237 to 246: \<^verbatim>\<open>pxt.get_table('qa_log')\<close>, and where it raises the table is created
  and then given its computed column.
\<close>

definition get_or_create_qa_log :: "'s env \<Rightarrow> state \<Rightarrow> (error + handle) \<times> state" where
  "get_or_create_qa_log env st =
     (case qa_log st of
        Some _ \<Rightarrow> (Inr (TableHandle ''qa_log''), st)
      | None \<Rightarrow>
          (case pxt_raises env CreateQaLog of
             Some m \<Rightarrow> (Inl (PxtError m), st)
           | None \<Rightarrow>
               (let st1 = st\<lparr>qa_log := Some [], answer_column := False\<rparr>
                in case pxt_raises env AddAnswerColumn of
                     Some m \<Rightarrow> (Inl (PxtError m), st1)
                   | None \<Rightarrow> (Inr (TableHandle ''qa_log''), st1\<lparr>answer_column := True\<rparr>))))"

definition ask_question :: "'s env \<Rightarrow> string \<Rightarrow> state \<Rightarrow> (error + string) \<times> state" where
  "ask_question env question st =
     (case get_tables env st of
        (Inl e, st1) \<Rightarrow> (Inl e, st1)
      | (Inr tables, st1) \<Rightarrow>
          (case tables ''chunks'' of
             None \<Rightarrow> (Inl (KeyError ''chunks''), st1)
           | Some chunks \<Rightarrow>
               (case query_context_rows env st1 question of
                  Inl e \<Rightarrow> (Inl e, st1)
                | Inr rows \<Rightarrow>
                    (let ctx = context_text rows;
                         p = prompt ctx question
                     in case get_or_create_qa_log env st1 of
                          (Inl e, st2) \<Rightarrow> (Inl e, st2)
                        | (Inr qa_table, st2) \<Rightarrow>
                            (case qa_insert env question ctx st2 of
                               (Inl e, st3) \<Rightarrow> (Inl e, st3)
                             | (Inr _, st3) \<Rightarrow>
                                 if \<not> answer_column st3
                                 then (Inl (AttributeError ''answer''), st3)
                                 else
                                   (let result = tail 1 (map qa_answer (the_rows (qa_log st3)));
                                        answer_text =
                                          (case result of
                                             [] \<Rightarrow> Some ''No answer generated.''
                                           | r # _ \<Rightarrow> r)
                                    in (Inr (render_template env HTML_TEMPLATE
                                               [(''answer'', answer_text)]),
                                        st3)))))))"

definition upload_image :: "'s env \<Rightarrow> upload_file \<Rightarrow> state \<Rightarrow> (error + string) \<times> state" where
  "upload_image env file st =
     (case get_tables env st of
        (Inl e, st1) \<Rightarrow> (Inl e, st1)
      | (Inr tables, st1) \<Rightarrow>
          (case tables ''images'' of
             None \<Rightarrow> (Inl (KeyError ''images''), st1)
           | Some images \<Rightarrow>
               (let p = temp_path file
                in case write_temp env p (file_data file) st1 of
                     Inl e \<Rightarrow> (Inl e, st1)
                   | Inr st2 \<Rightarrow>
                       (case images_insert env p st2 of
                          (Inl e, st3) \<Rightarrow> (Inl e, st3)
                        | (Inr _, st3) \<Rightarrow>
                            if \<not> vision_column st3
                            then (Inl (AttributeError ''vision_description''), st3)
                            else
                              (let result = tail 1 (map vision_description
                                                      (the_rows (images_tbl st3)));
                                   desc = (case result of
                                             [] \<Rightarrow> Some ''Analysis failed.''
                                           | r # _ \<Rightarrow> r)
                               in (Inr (render_template env HTML_TEMPLATE
                                          [(''image_desc'', desc)]),
                                   st3))))))"

subsection \<open>Runs of the service\<close>

text \<open>
  A request to one of the four endpoints, or the start of a new process on the same store
  (the case the \<^verbatim>\<open>try: get_table ... except: create_table\<close> blocks are written for).
\<close>

datatype event =
    Root
  | UploadDoc upload_file
  | Ask string
  | UploadImage upload_file
  | Restart

fun step :: "'s env \<Rightarrow> event \<Rightarrow> state \<Rightarrow> state" where
  "step env Root st = snd (root st)"
| "step env (UploadDoc f) st = snd (upload_doc env f st)"
| "step env (Ask q) st = snd (ask_question env q st)"
| "step env (UploadImage f) st = snd (upload_image env f st)"
| "step env Restart st = st\<lparr>TABLES := Map.empty, init_calls := 0\<rparr>"

definition run :: "'s env \<Rightarrow> event list \<Rightarrow> state \<Rightarrow> state" where
  "run env evs st = fold (step env) evs st"

text \<open>A new process on an empty store.\<close>

definition initial_state :: state where
  "initial_state =
     \<lparr>files = Map.empty, docs_tbl = None, doc_chunks = None, embedding_index = False,
      images_tbl = None, vision_column = False, qa_log = None, answer_column = False,
      TABLES = Map.empty, init_calls = 0, model_calls = []\<rparr>"

subsection \<open>Properties of states\<close>

text \<open>\<^verbatim>\<open>TABLES\<close> is empty or holds the three handles: \<^verbatim>\<open>get_tables\<close> alone writes it.\<close>

definition tables_ok :: "state \<Rightarrow> bool" where
  "tables_ok st \<longleftrightarrow>
     TABLES st = Map.empty \<or>
     (\<exists>d c i. TABLES st = [''docs'' \<mapsto> d, ''chunks'' \<mapsto> c, ''images'' \<mapsto> i])"

text \<open>\<^verbatim>\<open>TABLES\<close> as \<^verbatim>\<open>get_tables\<close> fills it.\<close>

definition full_tables :: "string \<rightharpoonup> handle" where
  "full_tables =
     [''docs'' \<mapsto> TableHandle ''docs'', ''chunks'' \<mapsto> TableHandle ''doc_chunks'',
      ''images'' \<mapsto> TableHandle ''images'']"

text \<open>
  \<^verbatim>\<open>get_tables\<close> returns: the handles are cached already, or no call of the
  initialisation raises.
\<close>

definition tables_ready :: "'s env \<Rightarrow> state \<Rightarrow> bool" where
  "tables_ready env st \<longleftrightarrow> (case fst (get_tables env st) of Inl _ \<Rightarrow> False | Inr _ \<Rightarrow> True)"

text \<open>
  A question can be put through: \<^verbatim>\<open>get_tables\<close> returns, the view it hands out has its
  embedding index, and \<^verbatim>\<open>qa_log\<close> has its computed column or can be created with it.
\<close>

definition ask_ready :: "'s env \<Rightarrow> state \<Rightarrow> bool" where
  "ask_ready env st \<longleftrightarrow>
     tables_ready env st \<and>
     (case doc_chunks (snd (get_tables env st)) of None \<Rightarrow> False | Some _ \<Rightarrow> True) \<and>
     embedding_index (snd (get_tables env st)) \<and>
     (case qa_log st of
        Some _ \<Rightarrow> answer_column st
      | None \<Rightarrow> pxt_raises env CreateQaLog = None \<and> pxt_raises env AddAnswerColumn = None)"

text \<open>
  An image can be described: \<^verbatim>\<open>get_tables\<close> returns and the table \<^verbatim>\<open>images\<close> it hands
  out has its computed column.
\<close>

definition images_ready :: "'s env \<Rightarrow> state \<Rightarrow> bool" where
  "images_ready env st \<longleftrightarrow>
     tables_ready env st \<and>
     (case images_tbl (snd (get_tables env st)) of None \<Rightarrow> False | Some _ \<Rightarrow> True) \<and>
     vision_column (snd (get_tables env st))"

text \<open>The attempts at the model on an image, and those of them that returned a text.\<close>

fun vision_call :: "model_call \<Rightarrow> bool" where
  "vision_call c = (case call_contents c of ImageContent _ \<Rightarrow> True | TextContent _ \<Rightarrow> False)"

fun vision_success :: "model_call \<Rightarrow> bool" where
  "vision_success c =
     (case (call_contents c, call_result c) of
        (ImageContent _, Inr _) \<Rightarrow> True
      | _ \<Rightarrow> False)"




text \<open>
  The page with \<open>h\<close> in its heading: the lines of the template, the heading line (line 23
  of the list, line 105 of the source) holding \<open>h\<close> between its tags.
\<close>

definition page_with_heading :: "string \<Rightarrow> string" where
  \<open>page_with_heading h =
     concat (map (\<lambda>l. l @ ''\<newline>'')
       (take 23 HTML_LINES @
        [''        <h1 class="text-4xl font-bold mb-2 gradient-text">'' @ h @ ''</h1>''] @
        drop 24 HTML_LINES))\<close>

subsection \<open>Test doubles\<close>

text \<open>
  An environment to run the handlers on: no call of the library raises, every file can be
  written, a document is one chunk (and the empty document is refused), every non-empty
  sequence of bytes is an image, a chunk scores the number of its characters that occur in
  the question, the ordering is an ascending stable sort read backwards (so of rows with
  equal keys the later comes first), the model echoes its input at the first attempt and the
  template engine prints the values it is given.
\<close>

definition mock_env :: "nat env" where
  "mock_env =
     \<lparr>pxt_raises = (\<lambda>op. None),
      can_open = (\<lambda>p. True),
      document_splitter = (\<lambda>d. if d = [] then Inl ''empty document'' else Inr [d]),
      valid_image = (\<lambda>d. d \<noteq> []),
      similarity = (\<lambda>q t. length (filter (\<lambda>c. c \<in> set q) t)),
      order_by_desc = (\<lambda>key rows. rev (sort_key key rows)),
      retried = (\<lambda>c m. []),
      generate_content =
        (\<lambda>c m. case c of
                  ImageContent d \<Rightarrow> Inr (''picture of '' @ d)
                | TextContent s \<Rightarrow> Inr (''reply to '' @ s)),
      render_template =
        (\<lambda>t vars. concat (map (\<lambda>(k, v). case v of None \<Rightarrow> [] | Some s \<Rightarrow> s) vars))\<rparr>"

text \<open>The same with a model that times out, at the only attempt the store makes.\<close>

definition timeout_env :: "nat env" where
  "timeout_env = mock_env\<lparr>generate_content := (\<lambda>c m. Inl ''timeout'')\<rparr>"

text \<open>The same with a store that, after a timeout, tries ten times more.\<close>

definition retrying_env :: "nat env" where
  "retrying_env = timeout_env\<lparr>retried := (\<lambda>c m. replicate 10 ''timeout'')\<rparr>"

text \<open>A model that answers at the third attempt of the store.\<close>

definition flaky_env :: "nat env" where
  "flaky_env = mock_env\<lparr>retried := (\<lambda>c m. [''timeout'', ''timeout''])\<rparr>"

text \<open>
  A library that refuses the expression of the computed column of lines 61 to 66 when the
  column is added.
\<close>

definition column_refused_env :: "nat env" where
  "column_refused_env =
     mock_env\<lparr>pxt_raises := (\<lambda>op. if op = AddVisionColumn then Some ''contents'' else None)\<rparr>"

text \<open>
  The same as the first with a descending sort that keeps rows with equal keys in the order
  of the table.
\<close>

definition stable_env :: "nat env" where
  "stable_env = mock_env\<lparr>order_by_desc := (\<lambda>key rows. rev (sort_key key (rev rows)))\<rparr>"

text \<open>
  A new process on a store where an earlier process created every table, with its index
  and computed column, and stored nothing.
\<close>

definition prepared_store :: state where
  "prepared_store =
     \<lparr>files = Map.empty, docs_tbl = Some [], doc_chunks = Some [], embedding_index = True,
      images_tbl = Some [], vision_column = True, qa_log = Some [], answer_column = True,
      TABLES = Map.empty, init_calls = 0, model_calls = []\<rparr>"

text \<open>The same with one document of four chunks.\<close>

definition sky_index :: state where
  "sky_index =
     prepared_store\<lparr>docs_tbl := Some [''/tmp/a.txt''],
       doc_chunks := Some [''The sky is blue.'', ''Grass is green.'', ''Water is wet.'', ''Why?'']\<rparr>"

text \<open>
  The store and the process after a first request on an empty store during which the library
  refused the computed column: line 57 has run, lines 61 to 66 have raised.
\<close>

definition columnless_store :: state where
  "columnless_store =
     \<lparr>files = Map.empty, docs_tbl = Some [], doc_chunks = Some [], embedding_index = True,
      images_tbl = Some [], vision_column = False, qa_log = None, answer_column = False,
      TABLES = Map.empty, init_calls = 1, model_calls = []\<rparr>"

text \<open>Two uploads.\<close>

definition cat_png :: upload_file where
  "cat_png = \<lparr>filename = ''cat.png'', file_data = ''CAT''\<rparr>"

definition dog_png :: upload_file where
  "dog_png = \<lparr>filename = ''dog.png'', file_data = ''DOG''\<rparr>"

section \<open>Properties\<close>

subsection \<open>Initialisation and the table cache\<close>

lemma the_rows_simps: "the_rows None = []" "the_rows (Some rs) = rs"
  by (simp_all add: the_rows_def)

lemma ensure_docs_frame:
  "files (snd (ensure_docs env st)) = files st"
  "doc_chunks (snd (ensure_docs env st)) = doc_chunks st"
  "embedding_index (snd (ensure_docs env st)) = embedding_index st"
  "images_tbl (snd (ensure_docs env st)) = images_tbl st"
  "vision_column (snd (ensure_docs env st)) = vision_column st"
  "qa_log (snd (ensure_docs env st)) = qa_log st"
  "answer_column (snd (ensure_docs env st)) = answer_column st"
  "TABLES (snd (ensure_docs env st)) = TABLES st"
  "init_calls (snd (ensure_docs env st)) = init_calls st"
  "model_calls (snd (ensure_docs env st)) = model_calls st"
  "the_rows (docs_tbl (snd (ensure_docs env st))) = the_rows (docs_tbl st)"
  by (simp_all add: ensure_docs_def the_rows_def split: option.splits)

lemma ensure_chunks_frame:
  "files (snd (ensure_chunks env st)) = files st"
  "docs_tbl (snd (ensure_chunks env st)) = docs_tbl st"
  "images_tbl (snd (ensure_chunks env st)) = images_tbl st"
  "vision_column (snd (ensure_chunks env st)) = vision_column st"
  "qa_log (snd (ensure_chunks env st)) = qa_log st"
  "answer_column (snd (ensure_chunks env st)) = answer_column st"
  "TABLES (snd (ensure_chunks env st)) = TABLES st"
  "init_calls (snd (ensure_chunks env st)) = init_calls st"
  "model_calls (snd (ensure_chunks env st)) = model_calls st"
  by (simp_all add: ensure_chunks_def Let_def split: option.splits)

lemma ensure_images_frame:
  "files (snd (ensure_images env st)) = files st"
  "docs_tbl (snd (ensure_images env st)) = docs_tbl st"
  "doc_chunks (snd (ensure_images env st)) = doc_chunks st"
  "embedding_index (snd (ensure_images env st)) = embedding_index st"
  "qa_log (snd (ensure_images env st)) = qa_log st"
  "answer_column (snd (ensure_images env st)) = answer_column st"
  "TABLES (snd (ensure_images env st)) = TABLES st"
  "init_calls (snd (ensure_images env st)) = init_calls st"
  "model_calls (snd (ensure_images env st)) = model_calls st"
  "the_rows (images_tbl (snd (ensure_images env st))) = the_rows (images_tbl st)"
  by (simp_all add: ensure_images_def Let_def the_rows_def split: option.splits)

lemma ensure_docs_exists:
  "fst (ensure_docs env st) = Inr h \<Longrightarrow> \<exists>ds. docs_tbl (snd (ensure_docs env st)) = Some ds"
  by (auto simp add: ensure_docs_def split: option.splits)

lemma ensure_chunks_exists:
  "fst (ensure_chunks env st) = Inr h \<Longrightarrow> \<exists>cs. doc_chunks (snd (ensure_chunks env st)) = Some cs"
  by (auto simp add: ensure_chunks_def Let_def split: option.splits)

lemma ensure_images_exists:
  "fst (ensure_images env st) = Inr h \<Longrightarrow> \<exists>rs. images_tbl (snd (ensure_images env st)) = Some rs"
  by (auto simp add: ensure_images_def Let_def split: option.splits)

lemma ensure_handles:
  "fst (ensure_docs env st) = Inr h \<Longrightarrow> h = TableHandle ''docs''"
  "fst (ensure_chunks env st) = Inr h \<Longrightarrow> h = TableHandle ''doc_chunks''"
  "fst (ensure_images env st) = Inr h \<Longrightarrow> h = TableHandle ''images''"
  by (auto simp add: ensure_docs_def ensure_chunks_def ensure_images_def Let_def
        split: option.splits)

lemma ensure_chunks_creates:
  "doc_chunks st = None \<Longrightarrow> fst (ensure_chunks env st) = Inr h \<Longrightarrow>
   embedding_index (snd (ensure_chunks env st))"
  by (auto simp add: ensure_chunks_def Let_def split: option.splits)

lemma ensure_images_creates:
  "images_tbl st = None \<Longrightarrow> fst (ensure_images env st) = Inr h \<Longrightarrow>
   vision_column (snd (ensure_images env st))"
  by (auto simp add: ensure_images_def Let_def split: option.splits)

lemma init_pixeltable_frame:
  "files (snd (init_pixeltable env st)) = files st"
  "qa_log (snd (init_pixeltable env st)) = qa_log st"
  "answer_column (snd (init_pixeltable env st)) = answer_column st"
  "TABLES (snd (init_pixeltable env st)) = TABLES st"
  "model_calls (snd (init_pixeltable env st)) = model_calls st"
  "init_calls (snd (init_pixeltable env st)) = Suc (init_calls st)"
  "the_rows (images_tbl (snd (init_pixeltable env st))) = the_rows (images_tbl st)"
  "the_rows (docs_tbl (snd (init_pixeltable env st))) = the_rows (docs_tbl st)"
proof -
  let ?st0 = "st\<lparr>init_calls := Suc (init_calls st)\<rparr>"
  let ?st1 = "snd (ensure_docs env ?st0)"
  let ?st2 = "snd (ensure_chunks env ?st1)"
  let ?st3 = "snd (ensure_images env ?st2)"
  have s: "snd (init_pixeltable env st) = ?st0 \<or> snd (init_pixeltable env st) = ?st1 \<or>
      snd (init_pixeltable env st) = ?st2 \<or> snd (init_pixeltable env st) = ?st3"
    by (simp add: init_pixeltable_def Let_def split_beta split: option.splits sum.splits)
  have f0: "files ?st0 = files st" "qa_log ?st0 = qa_log st" "answer_column ?st0 = answer_column st"
    "TABLES ?st0 = TABLES st" "model_calls ?st0 = model_calls st"
    "init_calls ?st0 = Suc (init_calls st)" "the_rows (images_tbl ?st0) = the_rows (images_tbl st)"
    "the_rows (docs_tbl ?st0) = the_rows (docs_tbl st)"
    by simp_all
  have f1: "files ?st1 = files st" "qa_log ?st1 = qa_log st" "answer_column ?st1 = answer_column st"
    "TABLES ?st1 = TABLES st" "model_calls ?st1 = model_calls st"
    "init_calls ?st1 = Suc (init_calls st)" "the_rows (images_tbl ?st1) = the_rows (images_tbl st)"
    "the_rows (docs_tbl ?st1) = the_rows (docs_tbl st)"
    by (simp_all add: ensure_docs_frame)
  have f2: "files ?st2 = files st" "qa_log ?st2 = qa_log st" "answer_column ?st2 = answer_column st"
    "TABLES ?st2 = TABLES st" "model_calls ?st2 = model_calls st"
    "init_calls ?st2 = Suc (init_calls st)" "the_rows (images_tbl ?st2) = the_rows (images_tbl st)"
    "the_rows (docs_tbl ?st2) = the_rows (docs_tbl st)"
    by (simp_all add: ensure_chunks_frame f1)
  have f3: "files ?st3 = files st" "qa_log ?st3 = qa_log st" "answer_column ?st3 = answer_column st"
    "TABLES ?st3 = TABLES st" "model_calls ?st3 = model_calls st"
    "init_calls ?st3 = Suc (init_calls st)" "the_rows (images_tbl ?st3) = the_rows (images_tbl st)"
    "the_rows (docs_tbl ?st3) = the_rows (docs_tbl st)"
    by (simp_all add: ensure_images_frame f2)
  show "files (snd (init_pixeltable env st)) = files st"
    using s f0(1) f1(1) f2(1) f3(1) by auto
  show "qa_log (snd (init_pixeltable env st)) = qa_log st"
    using s f0(2) f1(2) f2(2) f3(2) by auto
  show "answer_column (snd (init_pixeltable env st)) = answer_column st"
    using s f0(3) f1(3) f2(3) f3(3) by auto
  show "TABLES (snd (init_pixeltable env st)) = TABLES st"
    using s f0(4) f1(4) f2(4) f3(4) by auto
  show "model_calls (snd (init_pixeltable env st)) = model_calls st"
    using s f0(5) f1(5) f2(5) f3(5) by auto
  show "init_calls (snd (init_pixeltable env st)) = Suc (init_calls st)"
    using s f0(6) f1(6) f2(6) f3(6) by auto
  show "the_rows (images_tbl (snd (init_pixeltable env st))) = the_rows (images_tbl st)"
    using s f0(7) f1(7) f2(7) f3(7) by auto
  show "the_rows (docs_tbl (snd (init_pixeltable env st))) = the_rows (docs_tbl st)"
    using s f0(8) f1(8) f2(8) f3(8) by auto
qed

lemma init_pixeltable_returns:
  assumes "fst (init_pixeltable env st) = Inr hs"
  shows "hs = (TableHandle ''docs'', TableHandle ''doc_chunks'', TableHandle ''images'')"
    and "\<exists>ds. docs_tbl (snd (init_pixeltable env st)) = Some ds"
    and "\<exists>cs. doc_chunks (snd (init_pixeltable env st)) = Some cs"
    and "\<exists>rs. images_tbl (snd (init_pixeltable env st)) = Some rs"
proof -
  let ?st0 = "st\<lparr>init_calls := Suc (init_calls st)\<rparr>"
  let ?st1 = "snd (ensure_docs env ?st0)"
  let ?st2 = "snd (ensure_chunks env ?st1)"
  let ?st3 = "snd (ensure_images env ?st2)"
  obtain d c i where d: "fst (ensure_docs env ?st0) = Inr d"
    and c: "fst (ensure_chunks env ?st1) = Inr c"
    and i: "fst (ensure_images env ?st2) = Inr i"
    and hs: "hs = (d, c, i)" and s: "snd (init_pixeltable env st) = ?st3"
    using assms
    by (auto simp add: init_pixeltable_def Let_def split_beta split: option.splits sum.splits)
  show "hs = (TableHandle ''docs'', TableHandle ''doc_chunks'', TableHandle ''images'')"
    using ensure_handles(1) [OF d] ensure_handles(2) [OF c] ensure_handles(3) [OF i] hs by simp
  show "\<exists>ds. docs_tbl (snd (init_pixeltable env st)) = Some ds"
    using ensure_docs_exists [OF d] by (simp add: s ensure_images_frame ensure_chunks_frame)
  show "\<exists>cs. doc_chunks (snd (init_pixeltable env st)) = Some cs"
    using ensure_chunks_exists [OF c] by (simp add: s ensure_images_frame)
  show "\<exists>rs. images_tbl (snd (init_pixeltable env st)) = Some rs"
    using ensure_images_exists [OF i] by (simp add: s)
qed

lemma full_tables_nonempty: "full_tables \<noteq> Map.empty"
  by (simp add: full_tables_def)

lemma get_tables_cached:
  "TABLES st \<noteq> Map.empty \<Longrightarrow> get_tables env st = (Inr (TABLES st), st)"
  by (simp add: get_tables_def)

lemma get_tables_raises:
  "TABLES st = Map.empty \<Longrightarrow> fst (init_pixeltable env st) = Inl e \<Longrightarrow>
   get_tables env st = (Inl e, snd (init_pixeltable env st))"
  by (simp add: get_tables_def split_beta split: sum.splits)

lemma get_tables_fills:
  assumes "TABLES st = Map.empty" and "fst (init_pixeltable env st) = Inr hs"
  shows "get_tables env st =
     (Inr full_tables, (snd (init_pixeltable env st))\<lparr>TABLES := full_tables\<rparr>)"
  using assms init_pixeltable_returns(1) [OF assms(2)]
  by (simp add: get_tables_def split_beta Let_def init_pixeltable_frame full_tables_def
        split: sum.splits)

lemma get_tables_frame:
  "files (snd (get_tables env st)) = files st"
  "qa_log (snd (get_tables env st)) = qa_log st"
  "answer_column (snd (get_tables env st)) = answer_column st"
  "model_calls (snd (get_tables env st)) = model_calls st"
  "the_rows (images_tbl (snd (get_tables env st))) = the_rows (images_tbl st)"
  "the_rows (docs_tbl (snd (get_tables env st))) = the_rows (docs_tbl st)"
proof -
  consider (cached) "TABLES st \<noteq> Map.empty"
    | (raises) e where "TABLES st = Map.empty" "fst (init_pixeltable env st) = Inl e"
    | (fills) hs where "TABLES st = Map.empty" "fst (init_pixeltable env st) = Inr hs"
    by (cases "fst (init_pixeltable env st)") auto
  then have "files (snd (get_tables env st)) = files st \<and>
    qa_log (snd (get_tables env st)) = qa_log st \<and>
    answer_column (snd (get_tables env st)) = answer_column st \<and>
    model_calls (snd (get_tables env st)) = model_calls st \<and>
    the_rows (images_tbl (snd (get_tables env st))) = the_rows (images_tbl st) \<and>
    the_rows (docs_tbl (snd (get_tables env st))) = the_rows (docs_tbl st)"
  proof cases
    case cached
    then show ?thesis by (simp add: get_tables_cached)
  next
    case raises
    then show ?thesis by (simp add: get_tables_raises init_pixeltable_frame)
  next
    case fills
    then show ?thesis by (simp add: get_tables_fills init_pixeltable_frame)
  qed
  then show "files (snd (get_tables env st)) = files st"
    "qa_log (snd (get_tables env st)) = qa_log st"
    "answer_column (snd (get_tables env st)) = answer_column st"
    "model_calls (snd (get_tables env st)) = model_calls st"
    "the_rows (images_tbl (snd (get_tables env st))) = the_rows (images_tbl st)"
    "the_rows (docs_tbl (snd (get_tables env st))) = the_rows (docs_tbl st)"
    by simp_all
qed

lemma get_tables_returns:
  assumes "fst (get_tables env st) = Inr tables"
  shows "TABLES (snd (get_tables env st)) = tables"
    and "tables_ok st \<Longrightarrow> tables_ok (snd (get_tables env st))"
    and "tables_ok st \<Longrightarrow> tables \<noteq> Map.empty"
    and "get_tables env (snd (get_tables env st)) = (Inr tables, snd (get_tables env st))"
proof -
  consider (cached) "TABLES st \<noteq> Map.empty"
    | (fills) hs where "TABLES st = Map.empty" "fst (init_pixeltable env st) = Inr hs"
    using assms
    by (cases "TABLES st = Map.empty"; cases "fst (init_pixeltable env st)")
       (auto simp add: get_tables_raises)
  then have "TABLES (snd (get_tables env st)) = tables \<and>
     (tables_ok st \<longrightarrow> tables_ok (snd (get_tables env st)) \<and> tables \<noteq> Map.empty) \<and>
     get_tables env (snd (get_tables env st)) = (Inr tables, snd (get_tables env st))"
  proof cases
    case cached
    then show ?thesis using assms by (auto simp add: get_tables_cached)
  next
    case fills
    then show ?thesis
      using assms
      by (auto simp add: get_tables_fills get_tables_cached full_tables_nonempty tables_ok_def
            full_tables_def)
  qed
  then show "TABLES (snd (get_tables env st)) = tables"
    and "tables_ok st \<Longrightarrow> tables_ok (snd (get_tables env st))"
    and "tables_ok st \<Longrightarrow> tables \<noteq> Map.empty"
    and "get_tables env (snd (get_tables env st)) = (Inr tables, snd (get_tables env st))"
    by simp_all
qed

lemma get_tables_lookup:
  assumes "tables_ok st" and "fst (get_tables env st) = Inr tables"
  shows "\<exists>h. tables ''docs'' = Some h"
    and "\<exists>h. tables ''chunks'' = Some h"
    and "\<exists>h. tables ''images'' = Some h"
proof -
  have "tables_ok (snd (get_tables env st))" and "tables \<noteq> Map.empty"
    and "TABLES (snd (get_tables env st)) = tables"
    using get_tables_returns [OF assms(2)] assms(1) by simp_all
  then have "\<exists>d c i. tables = [''docs'' \<mapsto> d, ''chunks'' \<mapsto> c, ''images'' \<mapsto> i]"
    by (auto simp add: tables_ok_def)
  then show "\<exists>h. tables ''docs'' = Some h"
    and "\<exists>h. tables ''chunks'' = Some h"
    and "\<exists>h. tables ''images'' = Some h"
    by auto
qed

lemma tables_readyD:
  "tables_ready env st \<Longrightarrow> \<exists>tables. fst (get_tables env st) = Inr tables"
  by (cases "fst (get_tables env st)") (simp_all add: tables_ready_def)

lemma get_tables_raises_empty:
  assumes "tables_ok st" and "fst (get_tables env st) = Inl e"
  shows "TABLES (snd (get_tables env st)) = Map.empty" and "TABLES st = Map.empty"
proof -
  have e: "TABLES st = Map.empty"
    using assms(2) by (cases "TABLES st = Map.empty") (simp_all add: get_tables_cached)
  then show "TABLES st = Map.empty" .
  obtain e' where "fst (init_pixeltable env st) = Inl e'"
    using assms(2) e get_tables_fills [of st env]
    by (cases "fst (init_pixeltable env st)") auto
  then show "TABLES (snd (get_tables env st)) = Map.empty"
    using e by (simp add: get_tables_raises init_pixeltable_frame)
qed

lemma init_pixeltable_creates:
  assumes "fst (init_pixeltable env st) = Inr hs"
  shows "doc_chunks st = None \<Longrightarrow> embedding_index (snd (init_pixeltable env st))"
    and "images_tbl st = None \<Longrightarrow> vision_column (snd (init_pixeltable env st))"
proof -
  let ?st0 = "st\<lparr>init_calls := Suc (init_calls st)\<rparr>"
  let ?st1 = "snd (ensure_docs env ?st0)"
  let ?st2 = "snd (ensure_chunks env ?st1)"
  let ?st3 = "snd (ensure_images env ?st2)"
  obtain d c i where d: "fst (ensure_docs env ?st0) = Inr d"
    and c: "fst (ensure_chunks env ?st1) = Inr c"
    and i: "fst (ensure_images env ?st2) = Inr i"
    and s: "snd (init_pixeltable env st) = ?st3"
    using assms
    by (auto simp add: init_pixeltable_def Let_def split_beta split: option.splits sum.splits)
  show "embedding_index (snd (init_pixeltable env st))" if "doc_chunks st = None"
  proof -
    have "doc_chunks ?st1 = None"
      using that by (simp add: ensure_docs_frame)
    then have "embedding_index ?st2"
      using c by (rule ensure_chunks_creates)
    then show ?thesis
      by (simp add: s ensure_images_frame)
  qed
  show "vision_column (snd (init_pixeltable env st))" if "images_tbl st = None"
  proof -
    have "images_tbl ?st2 = None"
      using that by (simp add: ensure_chunks_frame ensure_docs_frame)
    then have "vision_column ?st3"
      using i by (rule ensure_images_creates)
    then show ?thesis
      by (simp add: s)
  qed
qed

lemma get_tables_creates:
  assumes "TABLES st = Map.empty" and "fst (get_tables env st) = Inr tables"
  shows "doc_chunks st = None \<Longrightarrow> embedding_index (snd (get_tables env st))"
    and "images_tbl st = None \<Longrightarrow> vision_column (snd (get_tables env st))"
    and "\<exists>rs. images_tbl (snd (get_tables env st)) = Some rs"
proof -
  obtain hs where hs: "fst (init_pixeltable env st) = Inr hs"
    using assms by (cases "fst (init_pixeltable env st)") (auto simp add: get_tables_raises)
  show "doc_chunks st = None \<Longrightarrow> embedding_index (snd (get_tables env st))"
    using init_pixeltable_creates(1) [OF hs] by (simp add: get_tables_fills [OF assms(1) hs])
  show "images_tbl st = None \<Longrightarrow> vision_column (snd (get_tables env st))"
    using init_pixeltable_creates(2) [OF hs] by (simp add: get_tables_fills [OF assms(1) hs])
  show "\<exists>rs. images_tbl (snd (get_tables env st)) = Some rs"
    using init_pixeltable_returns(4) [OF hs] by (simp add: get_tables_fills [OF assms(1) hs])
qed

subsection \<open>Answering\<close>

lemma attempts_last:
  "last (attempts env c m) =
     \<lparr>call_contents = c, call_model = m, call_result = generate_content env c m\<rparr>"
  "attempts env c m \<noteq> []"
  by (simp_all add: attempts_def)

lemma attempts_same:
  "a \<in> set (attempts env c m) \<Longrightarrow> call_contents a = c \<and> call_model a = m"
  by (auto simp add: attempts_def)

lemma qa_insert_fail:
  assumes "qa_log st = Some rs" and "answer_column st"
    and "generate_content env (TextContent (qa_contents q c)) ''gemini-2.0-flash'' = Inl m"
  shows "qa_insert env q c st =
     (Inl (PxtError m),
      st\<lparr>model_calls := model_calls st @
         attempts env (TextContent (qa_contents q c)) ''gemini-2.0-flash''\<rparr>)"
  using assms by (simp add: qa_insert_def evaluate_column_def)

lemma qa_insert_ok:
  assumes "qa_log st = Some rs" and "answer_column st"
    and "generate_content env (TextContent (qa_contents q c)) ''gemini-2.0-flash'' = Inr a"
  shows "qa_insert env q c st =
     (Inr (),
      st\<lparr>model_calls := model_calls st @
         attempts env (TextContent (qa_contents q c)) ''gemini-2.0-flash'',
         qa_log := Some (rs @ [\<lparr>qa_question = q, qa_context = c, qa_answer = Some a\<rparr>])\<rparr>)"
  using assms by (simp add: qa_insert_def evaluate_column_def)

lemma ask_readyD:
  assumes "tables_ok st" and "ask_ready env st"
  obtains tables h cs where "fst (get_tables env st) = Inr tables"
    and "tables ''chunks'' = Some h"
    and "doc_chunks (snd (get_tables env st)) = Some cs"
    and "embedding_index (snd (get_tables env st))"
proof -
  obtain tables where t: "fst (get_tables env st) = Inr tables"
    using assms(2) tables_readyD by (auto simp add: ask_ready_def)
  obtain h where h: "tables ''chunks'' = Some h"
    using get_tables_lookup(2) [OF assms(1) t] by blast
  obtain cs where c: "doc_chunks (snd (get_tables env st)) = Some cs"
    using assms(2) by (auto simp add: ask_ready_def split: option.splits)
  have "embedding_index (snd (get_tables env st))"
    using assms(2) by (simp add: ask_ready_def)
  with t h c show thesis by (rule that)
qed

lemma get_or_create_qa_log_ready:
  assumes "case qa_log st of Some _ \<Rightarrow> answer_column st
           | None \<Rightarrow> pxt_raises env CreateQaLog = None \<and> pxt_raises env AddAnswerColumn = None"
  shows "get_or_create_qa_log env st =
     (Inr (TableHandle ''qa_log''),
      st\<lparr>qa_log := Some (the_rows (qa_log st)), answer_column := True\<rparr>)"
  using assms
  by (cases "qa_log st") (simp_all add: get_or_create_qa_log_def Let_def the_rows_simps)

lemma ask_question_unfold:
  assumes "tables_ok st" and "ask_ready env st"
    and "st1 = snd (get_tables env st)"
    and "st2 = st1\<lparr>qa_log := Some (the_rows (qa_log st)), answer_column := True\<rparr>"
    and "ctx = context_text (context_rows env (the_rows (doc_chunks st1)) q)"
  shows "ask_question env q st =
     (case qa_insert env q ctx st2 of
        (Inl e, st3) \<Rightarrow> (Inl e, st3)
      | (Inr u, st3) \<Rightarrow>
          if \<not> answer_column st3 then (Inl (AttributeError ''answer''), st3)
          else (Inr (render_template env HTML_TEMPLATE
                  [(''answer'', case tail 1 (map qa_answer (the_rows (qa_log st3))) of
                                  [] \<Rightarrow> Some ''No answer generated.'' | r # x \<Rightarrow> r)]), st3))"
proof -
  obtain tables h cs where t: "fst (get_tables env st) = Inr tables"
    and h: "tables ''chunks'' = Some h"
    and c: "doc_chunks (snd (get_tables env st)) = Some cs"
    and i: "embedding_index (snd (get_tables env st))"
    using assms(1,2) by (rule ask_readyD)
  have g: "get_tables env st = (Inr tables, st1)"
    using t by (simp add: assms(3) prod_eq_iff)
  have r: "query_context_rows env st1 q = Inr (context_rows env (the_rows (doc_chunks st1)) q)"
    using c i by (simp add: query_context_rows_def assms(3) the_rows_simps)
  have pre: "case qa_log st1 of Some _ \<Rightarrow> answer_column st1
        | None \<Rightarrow> pxt_raises env CreateQaLog = None \<and> pxt_raises env AddAnswerColumn = None"
    using assms(2) by (simp add: ask_ready_def assms(3) get_tables_frame split: option.splits)
  have q: "get_or_create_qa_log env st1 = (Inr (TableHandle ''qa_log''), st2)"
    using get_or_create_qa_log_ready [OF pre] by (simp add: assms(3,4) get_tables_frame)
  show ?thesis
    by (simp add: ask_question_def g h r q Let_def assms(5) split: prod.splits sum.splits)
qed

lemma ask_question_fails:
  assumes "tables_ok st" and "ask_ready env st"
    and "ctx = context_text (context_rows env (the_rows (doc_chunks (snd (get_tables env st)))) q)"
    and "generate_content env (TextContent (qa_contents q ctx)) ''gemini-2.0-flash'' = Inl m"
  shows "ask_question env q st =
     (Inl (PxtError m),
      (snd (get_tables env st))\<lparr>qa_log := Some (the_rows (qa_log st)), answer_column := True,
         model_calls := model_calls st @
           attempts env (TextContent (qa_contents q ctx)) ''gemini-2.0-flash''\<rparr>)"
  by (simp add: ask_question_unfold [OF assms(1,2) refl refl assms(3)]
        qa_insert_fail [OF _ _ assms(4)] get_tables_frame)

lemma ask_question_answers:
  assumes "tables_ok st" and "ask_ready env st"
    and "ctx = context_text (context_rows env (the_rows (doc_chunks (snd (get_tables env st)))) q)"
    and "generate_content env (TextContent (qa_contents q ctx)) ''gemini-2.0-flash'' = Inr a"
  shows "ask_question env q st =
     (Inr (render_template env HTML_TEMPLATE [(''answer'', Some a)]),
      (snd (get_tables env st))\<lparr>qa_log := Some (the_rows (qa_log st) @
           [\<lparr>qa_question = q, qa_context = ctx, qa_answer = Some a\<rparr>]),
         answer_column := True,
         model_calls := model_calls st @
           attempts env (TextContent (qa_contents q ctx)) ''gemini-2.0-flash''\<rparr>)"
  by (simp add: ask_question_unfold [OF assms(1,2) refl refl assms(3)]
        qa_insert_ok [OF _ _ assms(4)] get_tables_frame tail_def the_rows_simps)

lemma ask_question_calls:
  assumes "tables_ok st" and "ask_ready env st"
  shows "model_calls (snd (ask_question env q st)) = model_calls st @
     attempts env (TextContent (qa_contents q
          (context_text (context_rows env (the_rows (doc_chunks (snd (get_tables env st)))) q))))
       ''gemini-2.0-flash''"
proof (cases "generate_content env (TextContent (qa_contents q
          (context_text (context_rows env (the_rows (doc_chunks (snd (get_tables env st)))) q))))
          ''gemini-2.0-flash''")
  case (Inl m)
  show ?thesis
    by (simp add: ask_question_fails [OF assms refl Inl])
next
  case (Inr a)
  show ?thesis
    by (simp add: ask_question_answers [OF assms refl Inr])
qed

subsection \<open>Retrieval\<close>

lemma sort_key_desc:
  "sorted_wrt (\<lambda>a b. key b \<le> key a) (rev (sort_key key rows))"
  using sorted_sort_key [of key rows] unfolding sorted_map by (simp add: sorted_wrt_rev)

lemma mock_env_contract: "order_by_contract mock_env"
  unfolding order_by_contract_def by (simp add: mock_env_def sort_key_desc)

lemma timeout_env_contract: "order_by_contract timeout_env"
  unfolding order_by_contract_def by (simp add: timeout_env_def mock_env_def sort_key_desc)

lemma stable_env_contract: "order_by_contract stable_env"
  unfolding order_by_contract_def by (simp add: stable_env_def sort_key_desc)

lemma mset_take_subset: "mset (take n xs) \<subseteq># mset xs"
proof -
  have "mset xs = mset (take n xs) + mset (drop n xs)"
    by (metis append_take_drop_id mset_append)
  then show ?thesis by simp
qed

lemma join_lines: "rows \<noteq> [] \<Longrightarrow> join sep rows @ sep = concat (map (\<lambda>t. t @ sep) rows)"
  by (induction sep rows rule: join.induct) simp_all

lemma context_rows_props:
  assumes "order_by_contract env"
  shows "length (context_rows env chunks q) \<le> 3"
    and "sorted_wrt (\<lambda>a b. similarity env q b \<le> similarity env q a) (context_rows env chunks q)"
    and "mset (context_rows env chunks q) \<subseteq># mset chunks"
proof -
  let ?o = "order_by_desc env (similarity env q) chunks"
  have m: "mset ?o = mset chunks"
    and s: "sorted_wrt (\<lambda>a b. similarity env q b \<le> similarity env q a) ?o"
    using assms by (simp_all add: order_by_contract_def)
  show "length (context_rows env chunks q) \<le> 3"
    by (simp add: context_rows_def limit_def)
  show "sorted_wrt (\<lambda>a b. similarity env q b \<le> similarity env q a) (context_rows env chunks q)"
    using s by (simp add: context_rows_def limit_def sorted_wrt_take)
  show "mset (context_rows env chunks q) \<subseteq># mset chunks"
    using mset_take_subset [of 3 ?o] m by (simp add: context_rows_def limit_def)
qed

lemma context_rows_empty:
  assumes "order_by_contract env"
  shows "context_rows env [] q = []"
  using context_rows_props(3) [OF assms, of "[]" q] by simp

subsection \<open>The test doubles\<close>

lemma get_tables_existing:
  assumes "TABLES st = Map.empty" and "pxt_raises env PxtInit = None"
    and "docs_tbl st = Some ds" and "doc_chunks st = Some cs" and "images_tbl st = Some rs"
  shows "get_tables env st =
     (Inr full_tables, st\<lparr>init_calls := Suc (init_calls st), TABLES := full_tables\<rparr>)"
proof -
  have i: "init_pixeltable env st =
      (Inr (TableHandle ''docs'', TableHandle ''doc_chunks'', TableHandle ''images''),
       st\<lparr>init_calls := Suc (init_calls st)\<rparr>)"
    using assms(2-5)
    by (simp add: init_pixeltable_def Let_def ensure_docs_def ensure_chunks_def ensure_images_def)
  show ?thesis
    using assms(1) by (simp add: get_tables_fills [where hs = "(TableHandle ''docs'',
      TableHandle ''doc_chunks'', TableHandle ''images'')"] i)
qed

lemma mock_envs_init:
  "pxt_raises mock_env op = None" "pxt_raises timeout_env op = None"
  "pxt_raises retrying_env op = None" "pxt_raises flaky_env op = None"
  "pxt_raises stable_env op = None"
  by (simp_all add: mock_env_def timeout_env_def retrying_env_def flaky_env_def stable_env_def)

lemma sky_index_fields:
  "TABLES sky_index = Map.empty" "docs_tbl sky_index = Some [''/tmp/a.txt'']"
  "doc_chunks sky_index =
     Some [''The sky is blue.'', ''Grass is green.'', ''Water is wet.'', ''Why?'']"
  "images_tbl sky_index = Some []" "qa_log sky_index = Some []" "answer_column sky_index"
  "embedding_index sky_index" "vision_column sky_index" "model_calls sky_index = []"
  "init_calls sky_index = 0"
  by (simp_all add: sky_index_def prepared_store_def)

lemma prepared_store_fields:
  "TABLES prepared_store = Map.empty" "docs_tbl prepared_store = Some []"
  "doc_chunks prepared_store = Some []"
  "images_tbl prepared_store = Some []" "qa_log prepared_store = Some []"
  "answer_column prepared_store" "embedding_index prepared_store"
  "vision_column prepared_store" "model_calls prepared_store = []"
  "init_calls prepared_store = 0" "files prepared_store = Map.empty"
  by (simp_all add: prepared_store_def)

lemma sky_index_ok: "tables_ok sky_index"
  by (simp add: tables_ok_def sky_index_fields)

lemma prepared_store_ok: "tables_ok prepared_store"
  by (simp add: tables_ok_def prepared_store_fields)

lemma sky_index_get_tables:
  assumes "pxt_raises env PxtInit = None"
  shows "get_tables env sky_index =
     (Inr full_tables, sky_index\<lparr>init_calls := Suc 0, TABLES := full_tables\<rparr>)"
  using get_tables_existing [OF sky_index_fields(1) assms sky_index_fields(2,3,4)]
  by (simp add: sky_index_fields)

lemma prepared_store_get_tables:
  assumes "pxt_raises env PxtInit = None"
  shows "get_tables env prepared_store =
     (Inr full_tables, prepared_store\<lparr>init_calls := Suc 0, TABLES := full_tables\<rparr>)"
  using get_tables_existing [OF prepared_store_fields(1) assms prepared_store_fields(2,3,4)]
  by (simp add: prepared_store_fields)

lemma sky_index_ready:
  assumes "pxt_raises env PxtInit = None"
  shows "ask_ready env sky_index"
  by (simp add: ask_ready_def tables_ready_def sky_index_get_tables [OF assms] sky_index_fields)

lemma prepared_store_ready:
  assumes "pxt_raises env PxtInit = None"
  shows "ask_ready env prepared_store" and "images_ready env prepared_store"
  by (simp_all add: ask_ready_def images_ready_def tables_ready_def
        prepared_store_get_tables [OF assms] prepared_store_fields)

lemma sky_index_index:
  assumes "pxt_raises env PxtInit = None"
  shows "the_rows (doc_chunks (snd (get_tables env sky_index))) =
     [''The sky is blue.'', ''Grass is green.'', ''Water is wet.'', ''Why?'']"
  by (simp add: sky_index_get_tables [OF assms] sky_index_fields the_rows_simps)

lemma prepared_store_index:
  assumes "pxt_raises env PxtInit = None"
  shows "the_rows (doc_chunks (snd (get_tables env prepared_store))) = []"
  by (simp add: prepared_store_get_tables [OF assms] prepared_store_fields the_rows_simps)

lemma mock_rows:
  "context_rows mock_env
     [''The sky is blue.'', ''Grass is green.'', ''Water is wet.'', ''Why?''] ''sky'' =
     [''The sky is blue.'', ''Grass is green.'', ''Why?'']"
  by (simp add: context_rows_def limit_def mock_env_def)

lemma timeout_rows:
  "context_rows timeout_env
     [''The sky is blue.'', ''Grass is green.'', ''Water is wet.'', ''Why?''] ''sky'' =
     [''The sky is blue.'', ''Grass is green.'', ''Why?'']"
  by (simp add: context_rows_def limit_def mock_env_def timeout_env_def)

lemma initial_state_ok: "tables_ok initial_state"
  by (simp add: tables_ok_def initial_state_def)

lemma initial_state_store:
  "TABLES initial_state = Map.empty" "init_calls initial_state = 0"
  "doc_chunks initial_state = None" "images_tbl initial_state = None"
  "model_calls initial_state = []" "qa_log initial_state = None"
  by (simp_all add: initial_state_def)

lemma mock_env_first:
  "get_tables mock_env initial_state =
     (Inr full_tables,
      prepared_store\<lparr>qa_log := None, answer_column := False, init_calls := 1,
        TABLES := full_tables\<rparr>)"
  by (simp add: get_tables_def init_pixeltable_def ensure_docs_def ensure_chunks_def
        ensure_images_def Let_def initial_state_def prepared_store_def mock_env_def
        full_tables_def the_rows_simps)

lemma mock_env_first_ready: "tables_ready mock_env initial_state"
  by (simp add: tables_ready_def mock_env_first)

lemma mock_env_first_ask_ready: "ask_ready mock_env initial_state"
  by (simp add: ask_ready_def mock_env_first_ready mock_env_first prepared_store_fields
        initial_state_store mock_envs_init)

lemma mock_env_first_index:
  "the_rows (doc_chunks (snd (get_tables mock_env initial_state))) = []"
  by (simp add: mock_env_first prepared_store_fields the_rows_simps)

text \<open>
  C1. Asked a question \<open>q\<close>, the pipeline retrieves at most three chunks of the index,
  in non-increasing order of their similarity to \<open>q\<close> (given that the store's
  \<^verbatim>\<open>order_by\<close> orders as it is asked to), and the context is their texts in that order,
  one per line: the empty string when there is none, and otherwise the texts each followed
  by a newline, without the last newline. Where the request gets as far as the model, this
  context is what its call carries.
\<close>

theorem ask_question_context:
  assumes "order_by_contract env" and "tables_ok st"
    and "chunks = the_rows (doc_chunks (snd (get_tables env st)))"
    and "rows = context_rows env chunks q"
  shows "length rows \<le> 3 \<and>
     sorted_wrt (\<lambda>a b. similarity env q b \<le> similarity env q a) rows \<and>
     mset rows \<subseteq># mset chunks \<and>
     (rows = [] \<longrightarrow> context_text rows = []) \<and>
     (rows \<noteq> [] \<longrightarrow>
        context_text rows @ ''\<newline>'' = concat (map (\<lambda>t. t @ ''\<newline>'') rows)) \<and>
     (ask_ready env st \<longrightarrow>
        call_contents (last (model_calls (snd (ask_question env q st)))) =
          TextContent (qa_contents q (context_text rows)))"
proof -
  have "ask_ready env st \<Longrightarrow>
      call_contents (last (model_calls (snd (ask_question env q st)))) =
        TextContent (qa_contents q (context_text rows))"
    by (simp add: ask_question_calls [OF assms(2)] attempts_last assms(3,4))
  then show ?thesis
    using context_rows_props [OF assms(1), where chunks = chunks and q = q]
    by (simp add: assms(3,4) context_text_def join_lines)
qed

theorem ask_question_context_witness:
  "order_by_contract mock_env \<and> tables_ok sky_index \<and> ask_ready mock_env sky_index \<and>
   context_rows mock_env (the_rows (doc_chunks (snd (get_tables mock_env sky_index)))) ''sky'' =
     [''The sky is blue.'', ''Grass is green.'', ''Why?''] \<and>
   context_text [''The sky is blue.'', ''Grass is green.'', ''Why?''] =
     ''The sky is blue.\<newline>Grass is green.\<newline>Why?'' \<and>
   call_contents (last (model_calls (snd (ask_question mock_env ''sky'' sky_index)))) =
     TextContent ''Question: sky\<newline>Context: The sky is blue.\<newline>Grass is green.\<newline>Why?''"
  using ask_question_context [OF mock_env_contract sky_index_ok refl refl, of "''sky''"]
    mock_env_contract sky_index_ok sky_index_ready [OF mock_envs_init(1)]
  by (simp add: sky_index_index [OF mock_envs_init(1)] mock_rows context_text_def qa_contents_def)

text \<open>
  C3, as the code has it. When the generative model fails for the request,
  \<^verbatim>\<open>ask_question\<close> raises to its caller the store's error carrying that failure (nothing
  in the handler catches it, and the program has no error class of its own), and the rows
  of \<^verbatim>\<open>qa_log\<close> are those from before the request, so no record with an answer was added.
  The handler inserts once and tries nothing again; the calls of the request are the
  attempts of the store at that one evaluation, each on the same contents and model and
  each failing. How many they are is the store's policy.
\<close>

theorem ask_question_generation_failure:
  assumes "tables_ok st" and "ask_ready env st"
    and "ctx = context_text (context_rows env (the_rows (doc_chunks (snd (get_tables env st)))) q)"
    and "generate_content env (TextContent (qa_contents q ctx)) ''gemini-2.0-flash'' = Inl m"
  shows "fst (ask_question env q st) = Inl (PxtError m) \<and>
     the_rows (qa_log (snd (ask_question env q st))) = the_rows (qa_log st) \<and>
     model_calls (snd (ask_question env q st)) = model_calls st @
       attempts env (TextContent (qa_contents q ctx)) ''gemini-2.0-flash'' \<and>
     list_all (\<lambda>c. call_contents c = TextContent (qa_contents q ctx) \<and>
                    call_model c = ''gemini-2.0-flash'' \<and> isl (call_result c))
       (attempts env (TextContent (qa_contents q ctx)) ''gemini-2.0-flash'')"
proof -
  have r: "ask_question env q st =
     (Inl (PxtError m),
      (snd (get_tables env st))\<lparr>qa_log := Some (the_rows (qa_log st)), answer_column := True,
         model_calls := model_calls st @
           attempts env (TextContent (qa_contents q ctx)) ''gemini-2.0-flash''\<rparr>)"
    using assms by (rule ask_question_fails)
  have a: "list_all (\<lambda>c. call_contents c = TextContent (qa_contents q ctx) \<and>
                    call_model c = ''gemini-2.0-flash'' \<and> isl (call_result c))
       (attempts env (TextContent (qa_contents q ctx)) ''gemini-2.0-flash'')"
    using assms(4) by (simp add: attempts_def list_all_iff)
  show ?thesis
    unfolding r using a by (simp add: the_rows_simps)
qed

lemma sky_prompt:
  assumes "pxt_raises env PxtInit = None"
    and "context_rows env [''The sky is blue.'', ''Grass is green.'', ''Water is wet.'', ''Why?'']
           ''sky'' = [''The sky is blue.'', ''Grass is green.'', ''Why?'']"
  shows "''The sky is blue.\<newline>Grass is green.\<newline>Why?'' =
     context_text (context_rows env
        (the_rows (doc_chunks (snd (get_tables env sky_index)))) ''sky'')"
  by (simp add: sky_index_index [OF assms(1)] assms(2) context_text_def)

theorem ask_question_generation_failure_witness:
  "tables_ok sky_index \<and> ask_ready timeout_env sky_index \<and>
   generate_content timeout_env
     (TextContent ''Question: sky\<newline>Context: The sky is blue.\<newline>Grass is green.\<newline>Why?'')
     ''gemini-2.0-flash'' = Inl ''timeout'' \<and>
   fst (ask_question timeout_env ''sky'' sky_index) = Inl (PxtError ''timeout'') \<and>
   the_rows (qa_log (snd (ask_question timeout_env ''sky'' sky_index))) = [] \<and>
   model_calls (snd (ask_question timeout_env ''sky'' sky_index)) =
     [\<lparr>call_contents =
         TextContent ''Question: sky\<newline>Context: The sky is blue.\<newline>Grass is green.\<newline>Why?'',
       call_model = ''gemini-2.0-flash'', call_result = Inl ''timeout''\<rparr>]"
proof -
  note c = sky_prompt [OF mock_envs_init(2) timeout_rows]
  have g: "generate_content timeout_env
     (TextContent (qa_contents ''sky'' ''The sky is blue.\<newline>Grass is green.\<newline>Why?''))
     ''gemini-2.0-flash'' = Inl ''timeout''"
    by (simp add: timeout_env_def)
  have a: "\<And>c m. attempts timeout_env c m =
     [\<lparr>call_contents = c, call_model = m, call_result = Inl ''timeout''\<rparr>]"
    by (simp add: attempts_def timeout_env_def mock_env_def)
  show ?thesis
    using ask_question_generation_failure
        [OF sky_index_ok sky_index_ready [OF mock_envs_init(2)] c g]
      sky_index_ok sky_index_ready [OF mock_envs_init(2)] g
    by (simp add: a sky_index_fields the_rows_simps qa_contents_def)
qed

lemma retrying_rows:
  "context_rows retrying_env
     [''The sky is blue.'', ''Grass is green.'', ''Water is wet.'', ''Why?''] ''sky'' =
     [''The sky is blue.'', ''Grass is green.'', ''Why?'']"
  by (simp add: context_rows_def limit_def mock_env_def timeout_env_def retrying_env_def)

theorem ask_question_attempts_counterexample:
  "model_calls sky_index = [] \<and>
   fst (ask_question retrying_env ''sky'' sky_index) = Inl (PxtError ''timeout'') \<and>
   length (model_calls (snd (ask_question retrying_env ''sky'' sky_index))) = 11"
proof -
  note c = sky_prompt [OF mock_envs_init(3) retrying_rows]
  have g: "generate_content retrying_env
     (TextContent (qa_contents ''sky'' ''The sky is blue.\<newline>Grass is green.\<newline>Why?''))
     ''gemini-2.0-flash'' = Inl ''timeout''"
    by (simp add: timeout_env_def retrying_env_def)
  have a: "\<And>c m. length (attempts retrying_env c m) = 11"
    by (simp add: attempts_def retrying_env_def)
  show ?thesis
    by (simp add: ask_question_fails [OF sky_index_ok sky_index_ready [OF mock_envs_init(3)] c g]
          a sky_index_fields)
qed

text \<open>
  C7, as the code has it. Against an empty index, for every question, the empty one
  included, retrieval returns no row and the context is the empty string: the empty index
  raises nothing, and the program has no error for it. Where the request gets as far as the
  model, its outcome is that of the model on the question with the empty context: the
  rendered answer, or the failure of the model raised to the caller.
\<close>

theorem ask_question_empty_index:
  assumes "order_by_contract env" and "tables_ok st" and "ask_ready env st"
    and "the_rows (doc_chunks (snd (get_tables env st))) = []"
  shows "fst (ask_question env q st) =
     (case generate_content env (TextContent (''Question: '' @ q @ ''\<newline>Context: ''))
             ''gemini-2.0-flash'' of
        Inl m \<Rightarrow> Inl (PxtError m)
      | Inr a \<Rightarrow> Inr (render_template env HTML_TEMPLATE [(''answer'', Some a)]))"
proof -
  have c: "context_text (context_rows env (the_rows (doc_chunks (snd (get_tables env st)))) q) = []"
    by (simp add: assms(4) context_rows_empty [OF assms(1)] context_text_def)
  show ?thesis
  proof (cases "generate_content env (TextContent (qa_contents q [])) ''gemini-2.0-flash''")
    case (Inl m)
    then show ?thesis
      using ask_question_fails [OF assms(2,3) c [symmetric], of m]
      by (simp add: qa_contents_def)
  next
    case (Inr a)
    then show ?thesis
      using ask_question_answers [OF assms(2,3) c [symmetric], of a]
      by (simp add: qa_contents_def)
  qed
qed

theorem ask_question_empty_index_witness:
  "order_by_contract mock_env \<and> tables_ok prepared_store \<and> ask_ready mock_env prepared_store \<and>
   the_rows (doc_chunks (snd (get_tables mock_env prepared_store))) = [] \<and>
   fst (ask_question mock_env '''' prepared_store) =
     Inr (render_template mock_env HTML_TEMPLATE
            [(''answer'', Some ''reply to Question: \<newline>Context: '')]) \<and>
   tables_ok initial_state \<and> ask_ready mock_env initial_state \<and>
   the_rows (doc_chunks (snd (get_tables mock_env initial_state))) = [] \<and>
   fst (ask_question mock_env ''why'' initial_state) =
     Inr (render_template mock_env HTML_TEMPLATE
            [(''answer'', Some ''reply to Question: why\<newline>Context: '')])"
  using ask_question_empty_index [OF mock_env_contract prepared_store_ok
      prepared_store_ready(1) [OF mock_envs_init(1)] prepared_store_index [OF mock_envs_init(1)],
      of "''''"]
    ask_question_empty_index [OF mock_env_contract initial_state_ok
      mock_env_first_ask_ready mock_env_first_index, of "''why''"]
    mock_env_contract prepared_store_ok prepared_store_ready(1) [OF mock_envs_init(1)]
    prepared_store_index [OF mock_envs_init(1)]
    initial_state_ok mock_env_first_ask_ready mock_env_first_index
  by (simp add: mock_env_def)

theorem ask_question_empty_index_counterexample:
  "the_rows (doc_chunks (snd (get_tables timeout_env prepared_store))) = [] \<and>
   fst (ask_question timeout_env '''' prepared_store) = Inl (PxtError ''timeout'')"
proof -
  have c: "[] = context_text (context_rows timeout_env
      (the_rows (doc_chunks (snd (get_tables timeout_env prepared_store)))) '''')"
    by (simp add: prepared_store_index [OF mock_envs_init(2)]
          context_rows_empty [OF timeout_env_contract] context_text_def)
  have g: "generate_content timeout_env (TextContent (qa_contents '''' [])) ''gemini-2.0-flash'' =
      Inl ''timeout''"
    by (simp add: timeout_env_def)
  show ?thesis
    by (simp add: ask_question_fails [OF prepared_store_ok
          prepared_store_ready(1) [OF mock_envs_init(2)] c g]
          prepared_store_index [OF mock_envs_init(2)])
qed

subsection \<open>Uploads\<close>

lemma write_temp_simps:
  "can_open env p \<Longrightarrow> write_temp env p d st = Inr (st\<lparr>files := (files st)(p \<mapsto> d)\<rparr>)"
  "\<not> can_open env p \<Longrightarrow> write_temp env p d st = Inl (OSError p)"
  by (simp_all add: write_temp_def)

lemma images_insert_ok:
  assumes "images_tbl st = Some rs" and "files st p = Some d" and "valid_image env d"
    and "vision_column st"
    and "generate_content env (ImageContent d) ''gemini-2.0-flash'' = Inr v"
  shows "images_insert env p st =
     (Inr (),
      st\<lparr>model_calls := model_calls st @ attempts env (ImageContent d) ''gemini-2.0-flash'',
         images_tbl := Some (rs @ [\<lparr>input_image = p, vision_description = Some v\<rparr>])\<rparr>)"
  using assms by (simp add: images_insert_def evaluate_column_def)

lemma images_insert_fail:
  assumes "images_tbl st = Some rs" and "files st p = Some d" and "valid_image env d"
    and "vision_column st"
    and "generate_content env (ImageContent d) ''gemini-2.0-flash'' = Inl m"
  shows "images_insert env p st =
     (Inl (PxtError m),
      st\<lparr>model_calls := model_calls st @ attempts env (ImageContent d) ''gemini-2.0-flash''\<rparr>)"
  using assms by (simp add: images_insert_def evaluate_column_def)

lemma upload_image_unfold:
  assumes "tables_ok st" and "fst (get_tables env st) = Inr tables"
  shows "upload_image env f st =
     (case write_temp env (temp_path f) (file_data f) (snd (get_tables env st)) of
        Inl e \<Rightarrow> (Inl e, snd (get_tables env st))
      | Inr st2 \<Rightarrow>
          (case images_insert env (temp_path f) st2 of
             (Inl e, st3) \<Rightarrow> (Inl e, st3)
           | (Inr u, st3) \<Rightarrow>
               if \<not> vision_column st3 then (Inl (AttributeError ''vision_description''), st3)
               else
                 (Inr (render_template env HTML_TEMPLATE
                    [(''image_desc'',
                      case tail 1 (map vision_description (the_rows (images_tbl st3))) of
                        [] \<Rightarrow> Some ''Analysis failed.'' | r # x \<Rightarrow> r)]), st3)))"
proof -
  obtain h where h: "tables ''images'' = Some h"
    using get_tables_lookup(3) [OF assms] by blast
  have g: "get_tables env st = (Inr tables, snd (get_tables env st))"
    using assms(2) by (simp add: prod_eq_iff)
  show ?thesis
    by (subst upload_image_def, subst g)
       (simp add: h Let_def split: sum.splits prod.splits)
qed

lemma images_readyD:
  assumes "images_ready env st"
  obtains tables rs where "fst (get_tables env st) = Inr tables"
    and "images_tbl (snd (get_tables env st)) = Some rs"
    and "vision_column (snd (get_tables env st))"
proof -
  obtain tables where t: "fst (get_tables env st) = Inr tables"
    using assms tables_readyD by (auto simp add: images_ready_def)
  obtain rs where r: "images_tbl (snd (get_tables env st)) = Some rs"
    using assms by (auto simp add: images_ready_def split: option.splits)
  have "vision_column (snd (get_tables env st))"
    using assms by (simp add: images_ready_def)
  with t r show thesis by (rule that)
qed

lemma upload_image_describes:
  assumes "tables_ok st" and "images_ready env st" and "can_open env (temp_path f)"
    and "valid_image env (file_data f)"
    and "generate_content env (ImageContent (file_data f)) ''gemini-2.0-flash'' = Inr v"
  shows "upload_image env f st =
     (Inr (render_template env HTML_TEMPLATE [(''image_desc'', Some v)]),
      (snd (get_tables env st))\<lparr>files := (files st)(temp_path f \<mapsto> file_data f),
         model_calls := model_calls st @
           attempts env (ImageContent (file_data f)) ''gemini-2.0-flash'',
         images_tbl := Some (the_rows (images_tbl st) @
           [\<lparr>input_image = temp_path f, vision_description = Some v\<rparr>])\<rparr>)"
proof -
  obtain tables rs where t: "fst (get_tables env st) = Inr tables"
    and r: "images_tbl (snd (get_tables env st)) = Some rs"
    and c: "vision_column (snd (get_tables env st))"
    using assms(2) by (rule images_readyD)
  have rs: "rs = the_rows (images_tbl st)"
    using get_tables_frame(5) [of env st] r by (simp add: the_rows_simps)
  let ?st2 = "(snd (get_tables env st))\<lparr>files := (files st)(temp_path f \<mapsto> file_data f)\<rparr>"
  have i: "images_insert env (temp_path f) ?st2 =
     (Inr (),
      ?st2\<lparr>model_calls := model_calls ?st2 @
           attempts env (ImageContent (file_data f)) ''gemini-2.0-flash'',
         images_tbl := Some (rs @
           [\<lparr>input_image = temp_path f, vision_description = Some v\<rparr>])\<rparr>)"
    by (rule images_insert_ok) (simp_all add: r c assms(4,5))
  show ?thesis
    by (simp add: upload_image_unfold [OF assms(1) t] write_temp_simps(1) [OF assms(3)]
          get_tables_frame i c rs tail_def the_rows_simps)
qed

lemma upload_image_fails:
  assumes "tables_ok st" and "images_ready env st" and "can_open env (temp_path f)"
    and "valid_image env (file_data f)"
    and "generate_content env (ImageContent (file_data f)) ''gemini-2.0-flash'' = Inl m"
  shows "upload_image env f st =
     (Inl (PxtError m),
      (snd (get_tables env st))\<lparr>files := (files st)(temp_path f \<mapsto> file_data f),
         model_calls := model_calls st @
           attempts env (ImageContent (file_data f)) ''gemini-2.0-flash''\<rparr>)"
proof -
  obtain tables rs where t: "fst (get_tables env st) = Inr tables"
    and r: "images_tbl (snd (get_tables env st)) = Some rs"
    and c: "vision_column (snd (get_tables env st))"
    using assms(2) by (rule images_readyD)
  let ?st2 = "(snd (get_tables env st))\<lparr>files := (files st)(temp_path f \<mapsto> file_data f)\<rparr>"
  have i: "images_insert env (temp_path f) ?st2 =
     (Inl (PxtError m),
      ?st2\<lparr>model_calls := model_calls ?st2 @
           attempts env (ImageContent (file_data f)) ''gemini-2.0-flash''\<rparr>)"
    by (rule images_insert_fail) (simp_all add: r c assms(4,5))
  show ?thesis
    by (simp add: upload_image_unfold [OF assms(1) t] write_temp_simps(1) [OF assms(3)]
          get_tables_frame i)
qed


subsection \<open>What every request leaves alone\<close>

lemma get_or_create_qa_log_frame:
  "TABLES (snd (get_or_create_qa_log env st)) = TABLES st"
  "init_calls (snd (get_or_create_qa_log env st)) = init_calls st"
  "images_tbl (snd (get_or_create_qa_log env st)) = images_tbl st"
  "vision_column (snd (get_or_create_qa_log env st)) = vision_column st"
  "docs_tbl (snd (get_or_create_qa_log env st)) = docs_tbl st"
  "doc_chunks (snd (get_or_create_qa_log env st)) = doc_chunks st"
  "model_calls (snd (get_or_create_qa_log env st)) = model_calls st"
  by (simp_all add: get_or_create_qa_log_def Let_def split: option.splits)

lemma text_attempts_not_vision:
  "filter vision_success (attempts env (TextContent s) m) = []"
  "filter vision_call (attempts env (TextContent s) m) = []"
  by (simp_all add: attempts_def)

lemma qa_insert_frame:
  "TABLES (snd (qa_insert env q c st)) = TABLES st"
  "init_calls (snd (qa_insert env q c st)) = init_calls st"
  "images_tbl (snd (qa_insert env q c st)) = images_tbl st"
  "vision_column (snd (qa_insert env q c st)) = vision_column st"
  "docs_tbl (snd (qa_insert env q c st)) = docs_tbl st"
  "doc_chunks (snd (qa_insert env q c st)) = doc_chunks st"
  "filter vision_success (model_calls (snd (qa_insert env q c st))) =
     filter vision_success (model_calls st)"
  by (simp_all add: qa_insert_def evaluate_column_def text_attempts_not_vision
        split: option.splits sum.splits)

lemma docs_insert_frame:
  assumes "docs_insert env p st = Inr st'"
  shows "TABLES st' = TABLES st" and "init_calls st' = init_calls st"
    and "images_tbl st' = images_tbl st" and "vision_column st' = vision_column st"
    and "model_calls st' = model_calls st"
    and "\<exists>ds. docs_tbl st' = Some ds"
    and "doc_chunks st = Some cs \<Longrightarrow> \<exists>cs'. doc_chunks st' = Some cs'"
  using assms by (auto simp add: docs_insert_def split: option.splits sum.splits)

lemma images_insert_frame:
  "TABLES (snd (images_insert env p st)) = TABLES st"
  "init_calls (snd (images_insert env p st)) = init_calls st"
  "docs_tbl (snd (images_insert env p st)) = docs_tbl st"
  "doc_chunks (snd (images_insert env p st)) = doc_chunks st"
  "vision_column (snd (images_insert env p st)) = vision_column st"
  "images_tbl st = Some rs \<Longrightarrow> \<exists>rs'. images_tbl (snd (images_insert env p st)) = Some rs'"
  by (auto simp add: images_insert_def evaluate_column_def split: option.splits sum.splits)



lemma ask_question_state:
  "snd (ask_question env q st) = snd (get_tables env st) \<or>
   snd (ask_question env q st) = snd (get_or_create_qa_log env (snd (get_tables env st))) \<or>
   snd (ask_question env q st) =
      snd (qa_insert env q
             (context_text (projr (query_context_rows env (snd (get_tables env st)) q)))
             (snd (get_or_create_qa_log env (snd (get_tables env st)))))"
  by (simp add: ask_question_def Let_def split_beta split: sum.splits option.splits)

lemma upload_doc_state:
  "snd (upload_doc env f st) = snd (get_tables env st) \<or>
   snd (upload_doc env f st) =
     (snd (get_tables env st))\<lparr>files := (files (snd (get_tables env st)))
        (temp_path f \<mapsto> file_data f)\<rparr> \<or>
   docs_insert env (temp_path f)
     ((snd (get_tables env st))\<lparr>files := (files (snd (get_tables env st)))
        (temp_path f \<mapsto> file_data f)\<rparr>) = Inr (snd (upload_doc env f st))"
  by (auto simp add: upload_doc_def Let_def write_temp_def
        split: prod.splits sum.splits option.splits if_splits)

lemma upload_image_state:
  "snd (upload_image env f st) = snd (get_tables env st) \<or>
   snd (upload_image env f st) =
     snd (images_insert env (temp_path f)
       ((snd (get_tables env st))\<lparr>files := (files (snd (get_tables env st)))
          (temp_path f \<mapsto> file_data f)\<rparr>))"
  by (auto simp add: upload_image_def Let_def write_temp_def
        split: prod.splits sum.splits option.splits if_splits)

lemma handler_cache:
  "TABLES (snd (ask_question env q st)) = TABLES (snd (get_tables env st)) \<and>
   init_calls (snd (ask_question env q st)) = init_calls (snd (get_tables env st))"
  "TABLES (snd (upload_doc env f st)) = TABLES (snd (get_tables env st)) \<and>
   init_calls (snd (upload_doc env f st)) = init_calls (snd (get_tables env st))"
  "TABLES (snd (upload_image env f st)) = TABLES (snd (get_tables env st)) \<and>
   init_calls (snd (upload_image env f st)) = init_calls (snd (get_tables env st))"
proof -
  show "TABLES (snd (ask_question env q st)) = TABLES (snd (get_tables env st)) \<and>
   init_calls (snd (ask_question env q st)) = init_calls (snd (get_tables env st))"
    using ask_question_state [of env q st]
    by (auto simp add: qa_insert_frame get_or_create_qa_log_frame)
  show "TABLES (snd (upload_doc env f st)) = TABLES (snd (get_tables env st)) \<and>
   init_calls (snd (upload_doc env f st)) = init_calls (snd (get_tables env st))"
    using upload_doc_state [of env f st]
    by (auto dest: docs_insert_frame(1,2))
  show "TABLES (snd (upload_image env f st)) = TABLES (snd (get_tables env st)) \<and>
   init_calls (snd (upload_image env f st)) = init_calls (snd (get_tables env st))"
    using upload_image_state [of env f st]
    by (auto simp add: images_insert_frame)
qed








lemma cached_step:
  assumes "TABLES st \<noteq> Map.empty" and "ev \<noteq> Restart"
  shows "TABLES (step env ev st) = TABLES st \<and> init_calls (step env ev st) = init_calls st"
  using assms handler_cache [of env _ st]
  by (cases ev) (simp_all add: root_def get_tables_cached)

lemma cached_run:
  assumes "TABLES st \<noteq> Map.empty" and "Restart \<notin> set evs"
  shows "TABLES (run env evs st) = TABLES st \<and> init_calls (run env evs st) = init_calls st"
  using assms
proof (induction evs arbitrary: st)
  case Nil
  then show ?case by (simp add: run_def)
next
  case (Cons ev evs)
  have e: "ev \<noteq> Restart" and r: "Restart \<notin> set evs"
    using Cons.prems(2) by auto
  have s: "TABLES (step env ev st) = TABLES st" "init_calls (step env ev st) = init_calls st"
    using cached_step [OF Cons.prems(1) e, of env] by simp_all
  have "TABLES (step env ev st) \<noteq> Map.empty"
    using Cons.prems(1) s(1) by simp
  from Cons.IH [OF this r] show ?case
    by (simp add: run_def s)
qed

lemma get_tables_funpow:
  assumes "fst (get_tables env st) = Inr tables"
  shows "((\<lambda>s. snd (get_tables env s)) ^^ n) (snd (get_tables env st)) = snd (get_tables env st)"
  by (induction n) (simp_all add: get_tables_returns(4) [OF assms])

subsection \<open>Images and the table cache\<close>

lemma temp_path_normalises:
  "temp_path \<lparr>filename = ''notes.txt'', file_data = d\<rparr> = ''/tmp/notes.txt''"
  "temp_path \<lparr>filename = ''./dot.txt'', file_data = d\<rparr> = ''/tmp/dot.txt''"
  "temp_path \<lparr>filename = ''a//b/'', file_data = d\<rparr> = ''/tmp/a/b''"
  "temp_path \<lparr>filename = ''../up'', file_data = d\<rparr> = ''/tmp/../up''"
  "temp_path \<lparr>filename = '''', file_data = d\<rparr> = ''/tmp''"
  by (simp_all add: temp_path_def)

lemma upload_paths:
  "temp_path cat_png = ''/tmp/cat.png''" "temp_path dog_png = ''/tmp/dog.png''"
  "file_data cat_png = ''CAT''" "file_data dog_png = ''DOG''"
  by (simp_all add: temp_path_def cat_png_def dog_png_def)

lemma mock_env_can_open:
  "can_open mock_env p" "can_open flaky_env p" "can_open column_refused_env p"
  by (simp_all add: mock_env_def flaky_env_def column_refused_env_def)

lemma column_refused_first:
  "get_tables column_refused_env initial_state = (Inl (PxtError ''contents''), columnless_store)"
  by (simp add: get_tables_def init_pixeltable_def ensure_docs_def ensure_chunks_def
        ensure_images_def Let_def initial_state_def columnless_store_def column_refused_env_def
        mock_env_def the_rows_simps)

lemma columnless_store_fields:
  "TABLES columnless_store = Map.empty" "docs_tbl columnless_store = Some []"
  "doc_chunks columnless_store = Some []" "images_tbl columnless_store = Some []"
  "\<not> vision_column columnless_store" "model_calls columnless_store = []"
  "init_calls columnless_store = 1" "files columnless_store = Map.empty"
  by (simp_all add: columnless_store_def)

lemma column_refused_init: "pxt_raises column_refused_env PxtInit = None"
  by (simp add: column_refused_env_def mock_env_def)

lemma column_refused_second:
  "get_tables column_refused_env columnless_store =
     (Inr full_tables, columnless_store\<lparr>init_calls := 2, TABLES := full_tables\<rparr>)"
  using get_tables_existing [OF columnless_store_fields(1) column_refused_init
      columnless_store_fields(2,3,4)]
  by (simp add: columnless_store_fields)

lemma columnless_store_ok: "tables_ok columnless_store"
  by (simp add: tables_ok_def columnless_store_fields)

text \<open>
  C5. On an empty store whose library refuses the computed column of lines 61 to 66, the
  first upload raises out of \<^verbatim>\<open>get_tables\<close>. Line 57 has created the table by then, so
  the second upload finds it, initialisation returns, and the insert stores the row
  without a description and without a call of the model; line 269 then raises. No upload
  returns a description.
\<close>

theorem upload_image_without_column:
  "fst (upload_image column_refused_env cat_png initial_state) = Inl (PxtError ''contents'') \<and>
   snd (upload_image column_refused_env cat_png initial_state) = columnless_store \<and>
   fst (upload_image column_refused_env dog_png columnless_store) =
     Inl (AttributeError ''vision_description'') \<and>
   images_tbl (snd (upload_image column_refused_env dog_png columnless_store)) =
     Some [\<lparr>input_image = ''/tmp/dog.png'', vision_description = None\<rparr>] \<and>
   model_calls (snd (upload_image column_refused_env dog_png columnless_store)) = []"
proof -
  have 1: "upload_image column_refused_env cat_png initial_state =
      (Inl (PxtError ''contents''), columnless_store)"
    by (simp add: upload_image_def column_refused_first)
  let ?st1 = "columnless_store\<lparr>init_calls := 2, TABLES := full_tables\<rparr>"
  let ?st2 = "?st1\<lparr>files := [''/tmp/dog.png'' \<mapsto> ''DOG'']\<rparr>"
  have g: "fst (get_tables column_refused_env columnless_store) = Inr full_tables"
    "snd (get_tables column_refused_env columnless_store) = ?st1"
    by (simp_all add: column_refused_second)
  have v: "valid_image column_refused_env ''DOG''"
    by (simp add: column_refused_env_def mock_env_def)
  have i: "images_insert column_refused_env ''/tmp/dog.png'' ?st2 =
      (Inr (), ?st2\<lparr>images_tbl :=
         Some [\<lparr>input_image = ''/tmp/dog.png'', vision_description = None\<rparr>]\<rparr>)"
    using v by (simp add: images_insert_def columnless_store_fields)
  have 2: "upload_image column_refused_env dog_png columnless_store =
      (Inl (AttributeError ''vision_description''),
       ?st2\<lparr>images_tbl :=
         Some [\<lparr>input_image = ''/tmp/dog.png'', vision_description = None\<rparr>]\<rparr>)"
    by (simp add: upload_image_unfold [OF columnless_store_ok g(1)] g(2) upload_paths
          write_temp_simps(1) [OF mock_env_can_open(3)] i columnless_store_fields)
  show ?thesis
    by (simp add: 1 2 columnless_store_fields)
qed

text \<open>
  Where the table has its computed column, the upload returns the text the model gave for
  the image just uploaded, and so does every later upload for its own image.
\<close>

lemma upload_image_latest_description:
  assumes "tables_ok st" and "images_ready env st" and "can_open env (temp_path f)"
    and "valid_image env (file_data f)"
    and "generate_content env (ImageContent (file_data f)) ''gemini-2.0-flash'' = Inr d"
  shows "fst (upload_image env f st) =
       Inr (render_template env HTML_TEMPLATE [(''image_desc'', Some d)]) \<and>
     last (the_rows (images_tbl (snd (upload_image env f st)))) =
       \<lparr>input_image = temp_path f, vision_description = Some d\<rparr>"
  by (simp add: upload_image_describes [OF assms] the_rows_simps)





text \<open>
  C10, as the code has it. A call of \<^verbatim>\<open>get_tables\<close> that returns leaves its handles in
  \<^verbatim>\<open>TABLES\<close>, and however often \<^verbatim>\<open>get_tables\<close> is called again it returns those handles
  and leaves the state as that call left it, the count of initialisations included. A call
  that finds \<^verbatim>\<open>TABLES\<close> empty enters \<^verbatim>\<open>init_pixeltable\<close> once; where that returns, the
  three tables exist, the view and the table of images that were not there before have
  their embedding index and their computed column, and \<^verbatim>\<open>TABLES\<close> holds the three
  handles; where it raises,
  \<^verbatim>\<open>TABLES\<close> stays empty, so that the next call enters it again. Once \<^verbatim>\<open>TABLES\<close> is
  filled, no request of the process enters \<^verbatim>\<open>init_pixeltable\<close> again.
\<close>

theorem get_tables_idempotent:
  "(fst (get_tables env st) = Inr tables \<longrightarrow>
      get_tables env (((\<lambda>s. snd (get_tables env s)) ^^ n) (snd (get_tables env st))) =
        (Inr tables, snd (get_tables env st)) \<and>
      TABLES (snd (get_tables env st)) = tables) \<and>
   (TABLES st = Map.empty \<and> fst (get_tables env st) = Inr tables \<longrightarrow>
      tables = full_tables \<and>
      init_calls (snd (get_tables env st)) = Suc (init_calls st) \<and>
      (\<exists>ds cs rs. docs_tbl (snd (get_tables env st)) = Some ds \<and>
         doc_chunks (snd (get_tables env st)) = Some cs \<and>
         images_tbl (snd (get_tables env st)) = Some rs) \<and>
      (doc_chunks st = None \<longrightarrow> embedding_index (snd (get_tables env st))) \<and>
      (images_tbl st = None \<longrightarrow> vision_column (snd (get_tables env st)))) \<and>
   (TABLES st = Map.empty \<and> fst (get_tables env st) = Inl e \<longrightarrow>
      TABLES (snd (get_tables env st)) = Map.empty \<and>
      init_calls (snd (get_tables env st)) = Suc (init_calls st)) \<and>
   (TABLES st \<noteq> Map.empty \<and> Restart \<notin> set evs \<longrightarrow>
      TABLES (run env evs st) = TABLES st \<and> init_calls (run env evs st) = init_calls st)"
proof -
  have 1: "fst (get_tables env st) = Inr tables \<Longrightarrow>
      get_tables env (((\<lambda>s. snd (get_tables env s)) ^^ n) (snd (get_tables env st))) =
        (Inr tables, snd (get_tables env st)) \<and>
      TABLES (snd (get_tables env st)) = tables"
    by (simp add: get_tables_funpow get_tables_returns(1,4))
  have 2: "tables = full_tables \<and>
      init_calls (snd (get_tables env st)) = Suc (init_calls st) \<and>
      (\<exists>ds cs rs. docs_tbl (snd (get_tables env st)) = Some ds \<and>
         doc_chunks (snd (get_tables env st)) = Some cs \<and>
         images_tbl (snd (get_tables env st)) = Some rs) \<and>
      (doc_chunks st = None \<longrightarrow> embedding_index (snd (get_tables env st))) \<and>
      (images_tbl st = None \<longrightarrow> vision_column (snd (get_tables env st)))"
    if e: "TABLES st = Map.empty" and r: "fst (get_tables env st) = Inr tables"
  proof -
    obtain hs where hs: "fst (init_pixeltable env st) = Inr hs"
      using e r by (cases "fst (init_pixeltable env st)") (auto simp add: get_tables_raises)
    have "tables = full_tables \<and>
      init_calls (snd (get_tables env st)) = Suc (init_calls st) \<and>
      (\<exists>ds cs rs. docs_tbl (snd (get_tables env st)) = Some ds \<and>
         doc_chunks (snd (get_tables env st)) = Some cs \<and>
         images_tbl (snd (get_tables env st)) = Some rs)"
      using r init_pixeltable_returns(2,3,4) [OF hs]
      by (auto simp add: get_tables_fills [OF e hs] init_pixeltable_frame)
    then show ?thesis
      using get_tables_creates(1,2) [OF e r] by blast
  qed
  have 3: "TABLES (snd (get_tables env st)) = Map.empty \<and>
      init_calls (snd (get_tables env st)) = Suc (init_calls st)"
    if e: "TABLES st = Map.empty" and r: "fst (get_tables env st) = Inl e"
  proof -
    obtain e' where e': "fst (init_pixeltable env st) = Inl e'"
      using e r get_tables_fills [OF e, of env]
      by (cases "fst (init_pixeltable env st)") auto
    show ?thesis
      using e by (simp add: get_tables_raises [OF e e'] init_pixeltable_frame)
  qed
  have 4: "TABLES st \<noteq> Map.empty \<Longrightarrow> Restart \<notin> set evs \<Longrightarrow>
      TABLES (run env evs st) = TABLES st \<and> init_calls (run env evs st) = init_calls st"
    by (rule cached_run)
  show ?thesis
    using 1 2 3 4 by blast
qed

lemma initial_state_fields:
  "TABLES initial_state = Map.empty" "init_calls initial_state = 0"
  by (simp_all add: initial_state_def)

lemma prepared_cached:
  "TABLES (snd (get_tables mock_env prepared_store)) \<noteq> Map.empty"
  by (simp add: prepared_store_get_tables [OF mock_envs_init(1)] full_tables_nonempty)

theorem get_tables_idempotent_witness:
  "fst (get_tables mock_env prepared_store) = Inr full_tables \<and>
   TABLES prepared_store = Map.empty \<and>
   get_tables mock_env (snd (get_tables mock_env (snd (get_tables mock_env prepared_store)))) =
     (Inr full_tables, snd (get_tables mock_env prepared_store)) \<and>
   init_calls (snd (get_tables mock_env prepared_store)) = 1 \<and>
   TABLES initial_state = Map.empty \<and>
   fst (get_tables mock_env initial_state) = Inr full_tables \<and>
   doc_chunks initial_state = None \<and> images_tbl initial_state = None \<and>
   doc_chunks (snd (get_tables mock_env initial_state)) = Some [] \<and>
   images_tbl (snd (get_tables mock_env initial_state)) = Some [] \<and>
   embedding_index (snd (get_tables mock_env initial_state)) \<and>
   vision_column (snd (get_tables mock_env initial_state)) \<and>
   fst (get_tables column_refused_env initial_state) = Inl (PxtError ''contents'') \<and>
   TABLES (snd (get_tables column_refused_env initial_state)) = Map.empty \<and>
   init_calls (snd (get_tables column_refused_env initial_state)) = 1 \<and>
   TABLES (snd (get_tables mock_env prepared_store)) \<noteq> Map.empty \<and>
   Restart \<notin> set [Ask ''a'', Ask ''b''] \<and>
   init_calls (run mock_env [Ask ''a'', Ask ''b''] (snd (get_tables mock_env prepared_store))) = 1"
proof -
  have r: "fst (get_tables mock_env prepared_store) = Inr full_tables"
    by (simp add: prepared_store_get_tables [OF mock_envs_init(1)])
  have c: "fst (get_tables column_refused_env initial_state) = Inl (PxtError ''contents'')"
    by (simp add: column_refused_first)
  have i: "init_calls (snd (get_tables mock_env prepared_store)) = 1"
    by (simp add: prepared_store_get_tables [OF mock_envs_init(1)])
  have m: "fst (get_tables mock_env initial_state) = Inr full_tables"
    "doc_chunks (snd (get_tables mock_env initial_state)) = Some []"
    "images_tbl (snd (get_tables mock_env initial_state)) = Some []"
    by (simp_all add: mock_env_first prepared_store_fields)
  show ?thesis
    using get_tables_idempotent [of mock_env prepared_store full_tables 1 "PxtError ''x''" "[]"]
      get_tables_idempotent [of column_refused_env initial_state full_tables 0
        "PxtError ''contents''" "[]"]
      get_tables_idempotent [of mock_env initial_state full_tables 0 "PxtError ''x''" "[]"]
      get_tables_idempotent [of mock_env "snd (get_tables mock_env prepared_store)" full_tables 0
        "PxtError ''x''" "[Ask ''a'', Ask ''b'']"]
      r c i m prepared_cached
    by (simp add: prepared_store_fields initial_state_fields initial_state_store)
qed

theorem init_pixeltable_twice_counterexample:
  "init_calls (run column_refused_env [Ask ''a'', Ask ''b''] initial_state) = 2"
proof -
  have 1: "snd (ask_question column_refused_env ''a'' initial_state) = columnless_store"
    by (simp add: ask_question_def column_refused_first)
  have 2: "init_calls (snd (ask_question column_refused_env ''b'' columnless_store)) = 2"
    using handler_cache(1) [of column_refused_env "''b''" columnless_store]
    by (simp add: column_refused_second)
  show ?thesis
    by (simp add: run_def 1 2)
qed

text \<open>
  C6. Two runs of \<^verbatim>\<open>ask_question\<close> on the same question, from any two states whose index
  holds the same chunks and with the same scoring and ordering, retrieve the same rows, and
  where both get as far as the model they send the same contents to the same model,
  whatever else differs between the two states and whatever the generative model, the file
  system and the template engine do. The witness runs the question twice in one process,
  the second time with a model that fails: the contents sent agree and the outcomes differ.
\<close>

theorem retrieval_deterministic:
  assumes "tables_ok st1" and "tables_ok st2"
    and "similarity env1 = similarity env2"
    and "order_by_desc env1 = order_by_desc env2"
    and "the_rows (doc_chunks (snd (get_tables env1 st1))) =
         the_rows (doc_chunks (snd (get_tables env2 st2)))"
    and "c1 = last (model_calls (snd (ask_question env1 q st1)))"
    and "c2 = last (model_calls (snd (ask_question env2 q st2)))"
  shows "context_rows env1 (the_rows (doc_chunks (snd (get_tables env1 st1)))) q =
         context_rows env2 (the_rows (doc_chunks (snd (get_tables env2 st2)))) q \<and>
     (ask_ready env1 st1 \<and> ask_ready env2 st2 \<longrightarrow>
        call_contents c1 = call_contents c2 \<and> call_model c1 = call_model c2)"
proof -
  have r: "context_rows env1 (the_rows (doc_chunks (snd (get_tables env1 st1)))) q =
         context_rows env2 (the_rows (doc_chunks (snd (get_tables env2 st2)))) q"
    by (simp add: assms(3-5) context_rows_def)
  have "call_contents c1 = call_contents c2 \<and> call_model c1 = call_model c2"
    if "ask_ready env1 st1" and "ask_ready env2 st2"
    using ask_question_calls [OF assms(1) that(1), of q]
      ask_question_calls [OF assms(2) that(2), of q]
    by (simp add: assms(6,7) attempts_last r)
  with r show ?thesis by blast
qed

theorem retrieval_deterministic_witness:
  "tables_ok sky_index \<and>
   tables_ok (snd (ask_question mock_env ''sky'' sky_index)) \<and>
   similarity mock_env = similarity timeout_env \<and>
   order_by_desc mock_env = order_by_desc timeout_env \<and>
   ask_ready mock_env sky_index \<and>
   ask_ready timeout_env (snd (ask_question mock_env ''sky'' sky_index)) \<and>
   call_contents (last (model_calls (snd (ask_question mock_env ''sky'' sky_index)))) =
   call_contents (last (model_calls (snd (ask_question timeout_env ''sky''
      (snd (ask_question mock_env ''sky'' sky_index)))))) \<and>
   fst (ask_question mock_env ''sky'' sky_index) \<noteq>
   fst (ask_question timeout_env ''sky'' (snd (ask_question mock_env ''sky'' sky_index)))"
proof -
  let ?st2 = "snd (ask_question mock_env ''sky'' sky_index)"
  note ready = sky_index_ready [OF mock_envs_init(1)]
  note c = sky_prompt [OF mock_envs_init(1) mock_rows]
  have g: "generate_content mock_env
      (TextContent (qa_contents ''sky'' ''The sky is blue.\<newline>Grass is green.\<newline>Why?''))
      ''gemini-2.0-flash'' =
      Inr (''reply to '' @ qa_contents ''sky'' ''The sky is blue.\<newline>Grass is green.\<newline>Why?'')"
    by (simp add: mock_env_def)
  note a = ask_question_answers [OF sky_index_ok ready c g]
  have f: "TABLES ?st2 = full_tables" "doc_chunks ?st2 = doc_chunks sky_index"
    "embedding_index ?st2" "answer_column ?st2" "\<exists>rs. qa_log ?st2 = Some rs"
    by (simp_all add: a sky_index_get_tables [OF mock_envs_init(1)] sky_index_fields)
  have ok2: "tables_ok ?st2"
    by (auto simp add: tables_ok_def f(1) full_tables_def)
  have ne: "TABLES ?st2 \<noteq> Map.empty"
    by (simp add: f(1) full_tables_nonempty)
  obtain rs where q: "qa_log ?st2 = Some rs"
    using f(5) by blast
  have ready2: "ask_ready timeout_env ?st2"
    by (simp add: ask_ready_def tables_ready_def get_tables_cached [OF ne] f(2,3,4) q
          sky_index_fields)
  have s: "similarity mock_env = similarity timeout_env"
    and ob: "order_by_desc mock_env = order_by_desc timeout_env"
    by (simp_all add: timeout_env_def)
  have i: "the_rows (doc_chunks (snd (get_tables mock_env sky_index))) =
           the_rows (doc_chunks (snd (get_tables timeout_env ?st2)))"
    by (simp add: get_tables_cached [OF ne] f(2) sky_index_get_tables [OF mock_envs_init(1)])
  have b: "fst (ask_question timeout_env ''sky'' ?st2) = Inl (PxtError ''timeout'')"
    by (subst ask_question_fails [OF ok2 ready2 refl]) (simp_all add: timeout_env_def)
  have a1: "fst (ask_question mock_env ''sky'' sky_index) =
      Inr (render_template mock_env HTML_TEMPLATE
        [(''answer'', Some (''reply to '' @
           qa_contents ''sky'' ''The sky is blue.\<newline>Grass is green.\<newline>Why?''))])"
    by (simp add: a)
  show ?thesis
    using retrieval_deterministic [OF sky_index_ok ok2 s ob i refl refl, of "''sky''"]
      sky_index_ok ok2 s ob ready ready2
    by (simp add: a1 b)
qed

text \<open>
  C2. The contents sent to the model are \<^verbatim>\<open>"Question: " + question + "\nContext: " + context\<close>:
  question and context verbatim, and no instruction. The text that asks for a concise answer
  from the context is in the local \<^verbatim>\<open>prompt\<close>, which the handler builds and never uses.
\<close>

theorem sent_contents_lack_instruction:
  "call_contents (last (model_calls (snd (ask_question mock_env ''grass'' sky_index)))) =
     TextContent ''Question: grass\<newline>Context: Grass is green.\<newline>Water is wet.\<newline>The sky is blue.'' \<and>
   \<not> sublist ''concisely''
     ''Question: grass\<newline>Context: Grass is green.\<newline>Water is wet.\<newline>The sky is blue.'' \<and>
   sublist ''Answer concisely based on the context.''
     (prompt ''Grass is green.\<newline>Water is wet.\<newline>The sky is blue.'' ''grass'')"
proof -
  have r: "context_rows mock_env
     [''The sky is blue.'', ''Grass is green.'', ''Water is wet.'', ''Why?''] ''grass'' =
     [''Grass is green.'', ''Water is wet.'', ''The sky is blue.'']"
    by (simp add: context_rows_def limit_def mock_env_def)
  have 1: "call_contents (last (model_calls (snd (ask_question mock_env ''grass'' sky_index)))) =
     TextContent ''Question: grass\<newline>Context: Grass is green.\<newline>Water is wet.\<newline>The sky is blue.''"
    by (simp add: ask_question_calls [OF sky_index_ok sky_index_ready [OF mock_envs_init(1)]]
          attempts_last sky_index_index [OF mock_envs_init(1)] r context_text_def qa_contents_def)
  have 2: "\<not> sublist ''concisely''
     ''Question: grass\<newline>Context: Grass is green.\<newline>Water is wet.\<newline>The sky is blue.''"
    by (simp add: sublist_Cons_right)
  have 3: "sublist ''Answer concisely based on the context.''
     (prompt ''Grass is green.\<newline>Water is wet.\<newline>The sky is blue.'' ''grass'')"
    by (simp add: prompt_def sublist_Cons_right)
  show ?thesis using 1 2 3 by blast
qed

subsection \<open>Replacing the heading of the page\<close>











lemma page_with_original_heading: "page_with_heading ''Pixeltable Multimodal'' = HTML_TEMPLATE"
  by (simp add: page_with_heading_def HTML_TEMPLATE_def HTML_LINES_def)



subsection \<open>Rows with equal scores\<close>

text \<open>
  Line 217 orders by the similarity alone. Which of two rows with the same score comes first
  is the store's choice: the two orderings below both honour the contract of
  \<^verbatim>\<open>order_by\<close>, and on an index where the third and the fourth chunk score the same they
  give the handler a different third row.
\<close>

lemma equal_scores:
  "similarity mock_env ''sky'' ''Water is wet.'' = similarity mock_env ''sky'' ''Why?'' \<and>
   similarity stable_env ''sky'' ''Water is wet.'' = similarity stable_env ''sky'' ''Why?''"
  by (simp add: stable_env_def mock_env_def)

lemma order_of_equal_scores:
  "context_rows mock_env
     [''The sky is blue.'', ''Grass is green.'', ''Water is wet.'', ''Why?''] ''sky'' =
     [''The sky is blue.'', ''Grass is green.'', ''Why?''] \<and>
   context_rows stable_env
     [''The sky is blue.'', ''Grass is green.'', ''Water is wet.'', ''Why?''] ''sky'' =
     [''The sky is blue.'', ''Grass is green.'', ''Water is wet.'']"
  by (simp add: context_rows_def limit_def stable_env_def mock_env_def)

end
